theory Spec2Isabelle
  imports Complex_Main
begin

section \<open>The host: file system, temporary names, external processes\<close>

text \<open>
  The program \<^verbatim>\<open>sox.py\<close> is sequential glue around two external tools. Everything it
  does is an effect on its host: it asks the temp-file facility for names, starts
  processes through the shell, unlinks files and prints. The host is modelled as an
  explicit state (\<open>world\<close>) that every operation takes and returns, also when it
  raises: an exception leaves behind whatever was created before it.

  Every exception the code can raise is a value of \<open>error\<close>. \<open>Exception\<close> is the bare
  \<^verbatim>\<open>raise Exception\<close> of \<^verbatim>\<open>exec_shell_cmd_for_file\<close>; the others are raised by the
  Python runtime: \<^verbatim>\<open>os.unlink\<close> on a missing path (\<open>FileNotFoundError\<close>), on a directory
  (\<open>IsADirectoryError\<close>), on a path it is not allowed to remove (\<open>PermissionError\<close>) or on
  \<^verbatim>\<open>None\<close> (\<open>TypeError\<close>), \<^verbatim>\<open>float\<close> on text that is no number and tuple unpacking of
  the wrong length (\<open>ValueError\<close>), \<^verbatim>\<open>list.pop\<close> and indexing out of range
  (\<open>IndexError\<close>), the temp-file facility running out of names (\<open>FileExistsError\<close>),
  and \<^verbatim>\<open>exit\<close> (\<open>SystemExit\<close>).
\<close>

datatype error =
    Exception
  | FileNotFoundError string
  | IsADirectoryError string
  | PermissionError string
  | FileExistsError
  | TypeError
  | ValueError
  | IndexError
  | SystemExit int

text \<open>
  What the program did to its host, in order: the trace of a run. \<open>Unlink p\<close> records
  that \<^verbatim>\<open>os.unlink(p)\<close> has removed the path \<open>p\<close>.

  \<open>files\<close> are the paths that exist, as the program spells them. The model knows a file
  by one spelling: it does not know that \<^verbatim>\<open>./input.mp4\<close> and \<^verbatim>\<open>input.mp4\<close> are one file, so
  what it says about a path is said about that spelling.
\<close>

datatype event =
    Mktemp string
  | Exec string int
  | Unlink string

record world =
  files :: "string set"
  tmp_names :: "string list"
  trace :: "event list"
  stdout :: string

text \<open>
  The parts of the host that the program only reads. The external tools are not part of
  the repository, so a process is known by its contract alone: \<open>system_status h cmd\<close> is
  what \<^verbatim>\<open>os.system(cmd)\<close> returns (0 exactly when the process exited with status 0), and
  \<open>leaves_partial h cmd\<close> says whether a process that failed has left a partly written
  output behind. \<open>unlink_error h p\<close> is what \<^verbatim>\<open>os.unlink\<close> raises on the existing path \<open>p\<close>
  instead of removing it (\<open>IsADirectoryError\<close> for a directory, \<open>PermissionError\<close> where the
  host forbids the removal), and \<open>None\<close> when it removes it. Python's rendering of a
  number by \<^verbatim>\<open>%s\<close> and its parsing of one by \<^verbatim>\<open>float\<close> are taken as they are given.
\<close>

record host =
  system_status :: "string \<Rightarrow> int"
  leaves_partial :: "string \<Rightarrow> bool"
  unlink_error :: "string \<Rightarrow> error option"
  str_float :: "real \<Rightarrow> string"
  parse_float :: "string \<Rightarrow> real option"

type_synonym 'a run = "world \<Rightarrow> (error + 'a) \<times> world"

text \<open>Sequencing of two statements: an exception in the first skips the second.\<close>

definition and_then :: "'a run \<Rightarrow> ('a \<Rightarrow> 'b run) \<Rightarrow> 'b run" where
  "and_then m f w = (case m w of (Inl e, w1) \<Rightarrow> (Inl e, w1) | (Inr x, w1) \<Rightarrow> f x w1)"

text \<open>
  A path held by the program is a Python value that is a string or \<^verbatim>\<open>None\<close> (the
  default of the constructor's \<^verbatim>\<open>outfile\<close>). \<^verbatim>\<open>'%s' % v\<close> renders it, and \<^verbatim>\<open>if v:\<close>
  tests it.
\<close>

fun pct_s :: "string option \<Rightarrow> string" where
  "pct_s None = ''None''"
| "pct_s (Some s) = s"

fun truthy :: "string option \<Rightarrow> bool" where
  "truthy None = False"
| "truthy (Some s) = (s \<noteq> [])"

text \<open>
  \<^verbatim>\<open>tempfile.NamedTemporaryFile(delete=False).name\<close>: the facility draws candidate names
  and takes the first one that does not exist yet, creates that file and leaves it on
  disk. \<open>tmp_names\<close> are the candidates it will draw; when none is usable it raises.
\<close>

fun first_free :: "string set \<Rightarrow> string list \<Rightarrow> (string \<times> string list) option" where
  "first_free fs [] = None"
| "first_free fs (n # ns) = (if n \<in> fs then first_free fs ns else Some (n, ns))"

definition NamedTemporaryFile :: "string run" where
  "NamedTemporaryFile w =
     (case first_free (files w) (tmp_names w) of
        None \<Rightarrow> (Inl FileExistsError, w\<lparr>tmp_names := []\<rparr>)
      | Some (n, ns) \<Rightarrow>
          (Inr n, w\<lparr>files := insert n (files w), tmp_names := ns,
                     trace := trace w @ [Mktemp n]\<rparr>))"

text \<open>
  \<^verbatim>\<open>os.system(cmd)\<close>. \<open>out\<close> is the output operand that \<open>cmd\<close> names: a process that
  exits with status 0 has written it, a process that fails has written it only if the
  host says so, and no process removes a file. This is the contract of the two tools on
  a command whose paths are single shell words. The command goes to the shell as one
  string, and what the shell makes of a path with blanks or metacharacters in it is not
  modelled: the theorems about the files on disk are about commands of plain paths.
\<close>

definition os_system :: "host \<Rightarrow> string \<Rightarrow> string \<Rightarrow> world \<Rightarrow> int \<times> world" where
  "os_system h cmd out w =
     (let st = system_status h cmd
      in (st, w\<lparr>files := (if st = 0 \<or> leaves_partial h cmd then insert out (files w)
                            else files w),
                  trace := trace w @ [Exec cmd st]\<rparr>))"

text \<open>
  \<^verbatim>\<open>os.unlink(path)\<close>: raises on \<^verbatim>\<open>None\<close>, on a path that does not exist, and on an
  existing path that the host does not let it remove.
\<close>

definition os_unlink :: "host \<Rightarrow> string option \<Rightarrow> unit run" where
  "os_unlink h path w =
     (case path of
        None \<Rightarrow> (Inl TypeError, w)
      | Some f \<Rightarrow>
          if f \<notin> files w then (Inl (FileNotFoundError f), w)
          else (case unlink_error h f of
                  Some e \<Rightarrow> (Inl e, w)
                | None \<Rightarrow>
                    (Inr (), w\<lparr>files := files w - {f}, trace := trace w @ [Unlink f]\<rparr>)))"

text \<open>\<^verbatim>\<open>print(s)\<close> and \<^verbatim>\<open>exit(n)\<close>.\<close>

definition py_print :: "string \<Rightarrow> unit run" where
  "py_print s w = (Inr (), w\<lparr>stdout := stdout w @ s @ [CHR 0x0A]\<rparr>)"

definition py_exit :: "int \<Rightarrow> unit run" where
  "py_exit n w = (Inl (SystemExit n), w)"

text \<open>\<^verbatim>\<open>os.path.basename\<close>: what follows the last slash.\<close>

definition basename :: "string \<Rightarrow> string" where
  "basename p = rev (takeWhile (\<lambda>c. c \<noteq> CHR ''/'') (rev p))"

section \<open>The class Sox\<close>

definition avprog :: string where "avprog = ''ffmpeg''"
definition soxprog :: string where "soxprog = ''sox''"
definition audio_suffix :: string where "audio_suffix = ''mp3''"
definition video_suffix :: string where "video_suffix = ''mp4''"
definition noise_len :: string where "noise_len = ''00:00:01''"
definition noise_sens :: real where "noise_sens = 0.21"

record sox =
  infile :: string
  outfile :: "string option"

text \<open>\<^verbatim>\<open>Sox.__init__(self, infile, outfile=None, overwrite=False)\<close>\<close>

definition Sox :: "string \<Rightarrow> string option \<Rightarrow> bool \<Rightarrow> sox" where
  "Sox inp outp overwrite =
     \<lparr>infile = inp, outfile = (if overwrite then Some inp else outp)\<rparr>"

text \<open>
  \<^verbatim>\<open>exec_shell_cmd_for_file(self, cmd, outfile)\<close>: the path is returned when the process
  exits with status 0; otherwise the path is unlinked and \<^verbatim>\<open>Exception\<close> is raised, unless
  the unlink itself raises first.
\<close>

definition exec_shell_cmd_for_file :: "host \<Rightarrow> string \<Rightarrow> string option \<Rightarrow> string option run" where
  "exec_shell_cmd_for_file h cmd out w =
     (case os_system h cmd (pct_s out) w of (st, w1) \<Rightarrow>
        if st = 0 then (Inr out, w1)
        else and_then (os_unlink h out) (\<lambda>_ w2. (Inl Exception, w2)) w1)"

text \<open>\<^verbatim>\<open>__extract(self, acodec, vcodec, suffix)\<close>, the private method \<^verbatim>\<open>_Sox__extract\<close>.\<close>

definition Sox_extract :: "host \<Rightarrow> sox \<Rightarrow> string option \<Rightarrow> string option \<Rightarrow> string \<Rightarrow> string option run" where
  "Sox_extract h self acodec vcodec suffix =
     and_then NamedTemporaryFile (\<lambda>name.
       let out = name @ ''.'' @ suffix;
           acodec_str = (if truthy acodec then ''-acodec '' @ pct_s acodec else ''-an'');
           vcodec_str = (if truthy vcodec then ''-vcodec '' @ pct_s vcodec else ''-vn'');
           cmd = avprog @ '' -y -i '' @ infile self @ '' '' @ acodec_str @ '' '' @ vcodec_str
                   @ '' '' @ out
       in exec_shell_cmd_for_file h cmd (Some out))"

definition extract_video :: "host \<Rightarrow> sox \<Rightarrow> string option run" where
  "extract_video h self = Sox_extract h self None (Some ''copy'') video_suffix"

definition extract_audio :: "host \<Rightarrow> sox \<Rightarrow> string option run" where
  "extract_audio h self = Sox_extract h self (Some ''copy'') None audio_suffix"

definition get_noise_sample :: "host \<Rightarrow> string option \<Rightarrow> string option run" where
  "get_noise_sample h audio =
     and_then NamedTemporaryFile (\<lambda>name.
       let out = name @ ''.'' @ audio_suffix;
           cmd = avprog @ '' -y -i '' @ pct_s audio @ '' -acodec copy -ss 00:00:00 -t ''
                   @ noise_len @ '' '' @ out
       in exec_shell_cmd_for_file h cmd (Some out))"

definition gen_noise_profile :: "host \<Rightarrow> string option \<Rightarrow> string option run" where
  "gen_noise_profile h sample =
     and_then NamedTemporaryFile (\<lambda>name.
       let out = name @ ''.prof'';
           cmd = soxprog @ '' '' @ pct_s sample @ '' -n noiseprof '' @ out
       in exec_shell_cmd_for_file h cmd (Some out))"

definition remove_noise :: "host \<Rightarrow> string option \<Rightarrow> string option \<Rightarrow> real \<Rightarrow> string option run" where
  "remove_noise h audio profile sensitivity =
     and_then NamedTemporaryFile (\<lambda>name.
       let out = name @ ''.'' @ audio_suffix;
           cmd = soxprog @ '' '' @ pct_s audio @ '' '' @ out @ '' noisered '' @ pct_s profile
                   @ '' '' @ str_float h sensitivity
       in exec_shell_cmd_for_file h cmd (Some out))"

definition merge :: "host \<Rightarrow> sox \<Rightarrow> string option \<Rightarrow> string option \<Rightarrow> string option run" where
  "merge h self video audio =
     (let cmd = avprog @ '' -y -i '' @ pct_s video @ '' -i '' @ pct_s audio
                  @ '' -vcodec copy -acodec copy '' @ pct_s (outfile self)
      in exec_shell_cmd_for_file h cmd (outfile self))"

definition increase_volume :: "host \<Rightarrow> string option \<Rightarrow> real \<Rightarrow> string option run" where
  "increase_volume h audio factor =
     and_then NamedTemporaryFile (\<lambda>name.
       let out = name @ ''.'' @ audio_suffix;
           cmd = soxprog @ '' -v '' @ str_float h factor @ '' '' @ pct_s audio @ '' '' @ out
       in exec_shell_cmd_for_file h cmd (Some out))"

text \<open>The loop \<^verbatim>\<open>for f in (...): os.unlink(f)\<close> that ends both pipelines.\<close>

fun unlink_all :: "host \<Rightarrow> string option list \<Rightarrow> unit run" where
  "unlink_all h [] w = (Inr (), w)"
| "unlink_all h (f # fs) w = and_then (os_unlink h f) (\<lambda>_. unlink_all h fs) w"

definition clean :: "host \<Rightarrow> sox \<Rightarrow> unit run" where
  "clean h self =
     and_then (extract_video h self) (\<lambda>video_only_file.
     and_then (extract_audio h self) (\<lambda>audio_only_file.
     and_then (get_noise_sample h audio_only_file) (\<lambda>noise_sample.
     and_then (gen_noise_profile h noise_sample) (\<lambda>noise_profile.
     and_then (remove_noise h audio_only_file noise_profile noise_sens) (\<lambda>clean_audio.
     and_then (merge h self video_only_file clean_audio) (\<lambda>_.
     unlink_all h [video_only_file, audio_only_file, noise_sample, noise_profile,
                 clean_audio]))))))"

definition incrvol :: "host \<Rightarrow> sox \<Rightarrow> real \<Rightarrow> unit run" where
  "incrvol h self factor =
     and_then (extract_video h self) (\<lambda>video_only_file.
     and_then (extract_audio h self) (\<lambda>audio_only_file.
     and_then (increase_volume h audio_only_file factor) (\<lambda>louder_audio.
     and_then (merge h self video_only_file louder_audio) (\<lambda>_.
     unlink_all h [video_only_file, audio_only_file, louder_audio]))))"

section \<open>The command line\<close>

text \<open>\<^verbatim>\<open>list.index\<close> (of an element that is in the list) and \<^verbatim>\<open>list.pop(idx)\<close>.\<close>

fun index_of :: "'a \<Rightarrow> 'a list \<Rightarrow> nat" where
  "index_of x [] = 0"
| "index_of x (y # ys) = (if x = y then 0 else Suc (index_of x ys))"

definition pop :: "nat \<Rightarrow> 'a list \<Rightarrow> error + 'a \<times> 'a list" where
  "pop idx xs =
     (if idx < length xs then Inr (xs ! idx, take idx xs @ drop (Suc idx) xs)
      else Inl IndexError)"

text \<open>
  The tail of the script, after the flag is removed:
  \<^verbatim>\<open>infile, outfile = sys.argv[1:]\<close>, the construction of the job, and the pipeline.
  \<open>factor\<close> is \<open>None\<close> where the script has \<^verbatim>\<open>do_clean = True\<close> (and no factor).
\<close>

definition run_job :: "host \<Rightarrow> real option \<Rightarrow> string list \<Rightarrow> unit run" where
  "run_job h factor argv w =
     (case drop 1 argv of
        [inp, outp] \<Rightarrow>
          (let job = Sox inp (Some outp) False
           in case factor of None \<Rightarrow> clean h job w | Some f \<Rightarrow> incrvol h job f w)
      | _ \<Rightarrow> (Inl ValueError, w))"

text \<open>\<^verbatim>\<open>sys.argv[0]\<close>\<close>

definition argv0 :: "string list \<Rightarrow> string run" where
  "argv0 argv w = (case argv of [] \<Rightarrow> (Inl IndexError, w) | p # _ \<Rightarrow> (Inr p, w))"

definition usage :: "string list \<Rightarrow> unit run" where
  "usage argv =
     and_then (py_print ''Clean the noise:'') (\<lambda>_.
     and_then (argv0 argv) (\<lambda>p.
     and_then (py_print (basename p @ '' -c IN-FILE OUT-FILE'')) (\<lambda>_.
     and_then (py_print (CHR 0x0A # ''Increase the volume'')) (\<lambda>_.
     and_then (argv0 argv) (\<lambda>q.
     and_then (py_print (basename q @ '' -v FACTOR IN-FILE OUT-FILE'')) (\<lambda>_.
     py_exit 1))))))"

text \<open>The script run as \<^verbatim>\<open>__main__\<close>, on \<^verbatim>\<open>sys.argv\<close>.\<close>

definition main :: "host \<Rightarrow> string list \<Rightarrow> unit run" where
  "main h argv w =
     (if ''-v'' \<in> set argv then
        (let idx = index_of ''-v'' argv
         in case pop idx argv of
              Inl e \<Rightarrow> (Inl e, w)
            | Inr (_, argv1) \<Rightarrow>
                (case pop idx argv1 of
                   Inl e \<Rightarrow> (Inl e, w)
                 | Inr (s, argv2) \<Rightarrow>
                     (case parse_float h s of
                        None \<Rightarrow> (Inl ValueError, w)
                      | Some factor \<Rightarrow> run_job h (Some factor) argv2 w)))
      else if ''-c'' \<in> set argv then
        (let idx = index_of ''-c'' argv
         in case pop idx argv of
              Inl e \<Rightarrow> (Inl e, w)
            | Inr (_, argv1) \<Rightarrow> run_job h None argv1 w)
      else usage argv w)"

section \<open>Reading a run\<close>

text \<open>
  The events a run from \<open>w\<close> to \<open>w'\<close> added to the trace, and the exit statuses of the
  processes among some events, in the order they were started.
\<close>

definition new_events :: "world \<Rightarrow> world \<Rightarrow> event list" where
  "new_events w w' = drop (length (trace w)) (trace w')"

fun exit_statuses :: "event list \<Rightarrow> int list" where
  "exit_statuses [] = []"
| "exit_statuses (Exec cmd st # evs) = st # exit_statuses evs"
| "exit_statuses (_ # evs) = exit_statuses evs"

text \<open>
  The shape that the five stages writing to a temporary path share: draw a name, append
  the suffix, build the command from the resulting path, run it for that path.
\<close>

definition tmp_stage :: "host \<Rightarrow> (string \<Rightarrow> string) \<Rightarrow> string \<Rightarrow> string option run" where
  "tmp_stage h C sfx =
     and_then NamedTemporaryFile (\<lambda>name.
       exec_shell_cmd_for_file h (C (name @ sfx)) (Some (name @ sfx)))"

text \<open>The paths that \<^verbatim>\<open>os.unlink\<close> has removed among some events, in order.\<close>

fun unlinked :: "event list \<Rightarrow> string list" where
  "unlinked [] = []"
| "unlinked (Unlink p # evs) = p # unlinked evs"
| "unlinked (_ # evs) = unlinked evs"

text \<open>
  Where the unlinks of a job can go: to its output path, and to a temporary name with
  the suffix of a stage. \<open>confined w0 A w\<close> says that the world \<open>w\<close> has come from \<open>w0\<close>
  by unlinking paths of \<open>A\<close> only, and \<open>preserves I m V\<close> that the operation \<open>m\<close> keeps
  the invariant \<open>I\<close> and returns values in \<open>V\<close>.
\<close>

definition may_unlink :: "sox \<Rightarrow> world \<Rightarrow> string set" where
  "may_unlink job w =
     set_option (outfile job) \<union>
     (\<lambda>(n, sfx). n @ sfx) ` (set (tmp_names w) \<times> {''.mp4'', ''.mp3'', ''.prof''})"

definition confined :: "world \<Rightarrow> string set \<Rightarrow> world \<Rightarrow> bool" where
  "confined w0 A w \<longleftrightarrow>
     set (tmp_names w) \<subseteq> set (tmp_names w0) \<and>
     (\<exists>evs. trace w = trace w0 @ evs \<and> set (unlinked evs) \<subseteq> A)"

definition preserves :: "(world \<Rightarrow> bool) \<Rightarrow> 'a run \<Rightarrow> ('a \<Rightarrow> bool) \<Rightarrow> bool" where
  "preserves I m V \<longleftrightarrow> (\<forall>w r w'. I w \<and> m w = (r, w') \<longrightarrow> I w' \<and> (\<forall>x. r = Inr x \<longrightarrow> V x))"

section \<open>Hosts and a world to run the program on\<close>

text \<open>
  \<open>host_ok\<close> is a host on which every external process succeeds and every existing path
  can be removed, \<open>host_down\<close> one on
  which every process fails at once (the shell finds no such tool: \<^verbatim>\<open>os.system\<close> returns
  32512) and writes nothing. \<open>demo_world\<close> holds the input file and five names for the
  temp-file facility to hand out.
\<close>

definition host_ok :: host where
  "host_ok = \<lparr>system_status = (\<lambda>_. 0), leaves_partial = (\<lambda>_. False),
               unlink_error = (\<lambda>_. None),
               str_float = (\<lambda>x. if x = 0 then ''0'' else if x = 1 then ''1''
                                else if x = 2 then ''2.0'' else ''0.21''),
               parse_float = (\<lambda>s. if s = ''2.0'' then Some 2 else None)\<rparr>"

definition host_down :: host where
  "host_down = host_ok\<lparr>system_status := (\<lambda>_. 32512)\<rparr>"

definition demo_world :: world where
  "demo_world = \<lparr>files = {''input.mp4''},
                  tmp_names = [''/tmp/tmpa'', ''/tmp/tmpb'', ''/tmp/tmpc'', ''/tmp/tmpd'',
                               ''/tmp/tmpe''],
                  trace = [], stdout = []\<rparr>"

text \<open>
  \<open>stale_world\<close> is \<open>demo_world\<close> with a file already at \<^verbatim>\<open>/tmp/tmpa.mp3\<close>, the path that
  a stage with the suffix \<^verbatim>\<open>mp3\<close> writes to when the temp-file facility hands out
  \<^verbatim>\<open>/tmp/tmpa\<close>.
\<close>

definition stale_world :: world where
  "stale_world = demo_world\<lparr>files := {''input.mp4'', ''/tmp/tmpa.mp3''}\<rparr>"

text \<open>
  \<open>host_remux_fails\<close> is a host on which every process succeeds but the remux of the
  cleaned audio into \<^verbatim>\<open>input.mp4\<close>.
\<close>

definition host_remux_fails :: host where
  "host_remux_fails = host_ok\<lparr>system_status :=
     (\<lambda>cmd. if cmd = ''ffmpeg -y -i /tmp/tmpa.mp4 -i /tmp/tmpe.mp3 -vcodec copy -acodec copy input.mp4''
            then 256 else 0)\<rparr>"

section \<open>The constructor\<close>

text \<open>
  Claim C10. With overwrite requested the job's output path is its input path, whatever
  output path was supplied; without it the output path is the supplied one. The input
  path is stored unchanged in both cases.
\<close>

theorem Sox_init:
  "infile (Sox inp outp True) = inp \<and> outfile (Sox inp outp True) = Some inp \<and>
   infile (Sox inp outp False) = inp \<and> outfile (Sox inp outp False) = outp"
  by (simp add: Sox_def)

section \<open>The command line: usage and a factor that is no number\<close>

lemma index_of_append: "x \<notin> set pre \<Longrightarrow> index_of x (pre @ x # ys) = length pre"
  by (induction pre) auto

lemma pop_append: "pop (length pre) (pre @ x # ys) = Inr (x, pre @ ys)"
  by (simp add: pop_def)

text \<open>
  Claim C6. When neither \<^verbatim>\<open>-c\<close> nor \<^verbatim>\<open>-v\<close> is among the arguments, the script prints
  the usage of both modes to standard output and exits with status 1. Nothing else of
  the world changes: no file is created or removed, no temporary name is drawn and no
  process is started.
\<close>

theorem main_usage:
  assumes "''-v'' \<notin> set (prog # args)" and "''-c'' \<notin> set (prog # args)"
  shows "main h (prog # args) w =
           (Inl (SystemExit 1),
            w\<lparr>stdout := stdout w @ ''Clean the noise:'' @ [CHR 0x0A]
                  @ basename prog @ '' -c IN-FILE OUT-FILE'' @ [CHR 0x0A]
                  @ [CHR 0x0A] @ ''Increase the volume'' @ [CHR 0x0A]
                  @ basename prog @ '' -v FACTOR IN-FILE OUT-FILE'' @ [CHR 0x0A]\<rparr>)"
  using assms by (simp add: main_def usage_def and_then_def py_print_def argv0_def py_exit_def)

theorem main_usage_witness:
  "''-v'' \<notin> set [''/usr/bin/sox.py'', ''input.mp4'', ''clean.mp4''] \<and>
   ''-c'' \<notin> set [''/usr/bin/sox.py'', ''input.mp4'', ''clean.mp4''] \<and>
   fst (main host_ok [''/usr/bin/sox.py'', ''input.mp4'', ''clean.mp4''] demo_world)
     = Inl (SystemExit 1) \<and>
   stdout (snd (main host_ok [''/usr/bin/sox.py'', ''input.mp4'', ''clean.mp4''] demo_world))
     = ''Clean the noise:'' @ [CHR 0x0A] @ ''sox.py -c IN-FILE OUT-FILE'' @ [CHR 0x0A, CHR 0x0A]
       @ ''Increase the volume'' @ [CHR 0x0A] @ ''sox.py -v FACTOR IN-FILE OUT-FILE'' @ [CHR 0x0A] \<and>
   files (snd (main host_ok [''/usr/bin/sox.py'', ''input.mp4'', ''clean.mp4''] demo_world))
     = {''input.mp4''} \<and>
   trace (snd (main host_ok [''/usr/bin/sox.py'', ''input.mp4'', ''clean.mp4''] demo_world)) = []"
  using main_usage [of "''/usr/bin/sox.py''" "[''input.mp4'', ''clean.mp4'']" host_ok demo_world]
  by (simp add: basename_def demo_world_def)

text \<open>
  Claim C9. When \<^verbatim>\<open>-v\<close> is followed by text that \<^verbatim>\<open>float\<close> does not parse, the script
  fails with \<^verbatim>\<open>ValueError\<close> while it reads its arguments: the world is returned as it was,
  so no process was started and no temporary file was created.
\<close>

theorem main_bad_factor:
  assumes "''-v'' \<notin> set pre" and "parse_float h s = None"
  shows "main h (pre @ ''-v'' # s # rest) w = (Inl ValueError, w)"
  using assms by (simp add: main_def index_of_append pop_append)

theorem main_bad_factor_witness:
  "''-v'' \<notin> set [''sox.py''] \<and> parse_float host_ok ''loud'' = None \<and>
   main host_ok [''sox.py'', ''-v'', ''loud'', ''input.mp4'', ''louder.mp4''] demo_world
     = (Inl ValueError, demo_world)"
  using main_bad_factor [of "[''sox.py'']" host_ok "''loud''" "[''input.mp4'', ''louder.mp4'']" demo_world]
  by (simp add: host_ok_def)

section \<open>One stage\<close>

text \<open>
  The temp-file facility hands out a name that did not exist and that is one of its
  candidates; the candidates left are among those it had.
\<close>

lemma first_free_Some:
  "first_free fs ns = Some (n, ns') \<Longrightarrow> n \<notin> fs \<and> n \<in> set ns \<and> set ns' \<subseteq> set ns"
  by (induction ns) (auto split: if_splits)

lemma exec_ok:
  "system_status h cmd = 0 \<Longrightarrow>
   exec_shell_cmd_for_file h cmd out w =
     (Inr out, w\<lparr>files := insert (pct_s out) (files w), trace := trace w @ [Exec cmd 0]\<rparr>)"
  by (simp add: exec_shell_cmd_for_file_def os_system_def Let_def)

lemma exec_fail_present:
  "system_status h cmd \<noteq> 0 \<Longrightarrow> p \<in> files w \<or> leaves_partial h cmd \<Longrightarrow>
   unlink_error h p = None \<Longrightarrow>
   exec_shell_cmd_for_file h cmd (Some p) w =
     (Inl Exception, w\<lparr>files := files w - {p},
                        trace := trace w @ [Exec cmd (system_status h cmd), Unlink p]\<rparr>)"
  by (auto simp add: exec_shell_cmd_for_file_def os_system_def Let_def os_unlink_def and_then_def)

lemma exec_fail_absent:
  "system_status h cmd \<noteq> 0 \<Longrightarrow> p \<notin> files w \<Longrightarrow> \<not> leaves_partial h cmd \<Longrightarrow>
   exec_shell_cmd_for_file h cmd (Some p) w =
     (Inl (FileNotFoundError p), w\<lparr>trace := trace w @ [Exec cmd (system_status h cmd)]\<rparr>)"
  by (simp add: exec_shell_cmd_for_file_def os_system_def Let_def os_unlink_def and_then_def)

lemma exec_fail_None:
  "system_status h cmd \<noteq> 0 \<Longrightarrow>
   exec_shell_cmd_for_file h cmd None w =
     (Inl TypeError, w\<lparr>files := (if leaves_partial h cmd then insert ''None'' (files w) else files w),
                        trace := trace w @ [Exec cmd (system_status h cmd)]\<rparr>)"
  by (simp add: exec_shell_cmd_for_file_def os_system_def Let_def os_unlink_def and_then_def)

lemma tmp_then:
  "first_free (files w) (tmp_names w) = Some (n, ns) \<Longrightarrow>
   and_then NamedTemporaryFile f w =
     f n (w\<lparr>files := insert n (files w), tmp_names := ns, trace := trace w @ [Mktemp n]\<rparr>)"
  by (simp add: and_then_def NamedTemporaryFile_def)

lemma tmp_then_none:
  "first_free (files w) (tmp_names w) = None \<Longrightarrow>
   and_then NamedTemporaryFile f w = (Inl FileExistsError, w\<lparr>tmp_names := []\<rparr>)"
  by (simp add: and_then_def NamedTemporaryFile_def)

lemma exit_statuses_append [simp]:
  "exit_statuses (xs @ ys) = exit_statuses xs @ exit_statuses ys"
  by (induction xs rule: exit_statuses.induct) auto

text \<open>Each stage, with its command spelled out.\<close>

lemma extract_video_eq:
  "extract_video h self =
     tmp_stage h (\<lambda>out. ''ffmpeg -y -i '' @ infile self @ '' -an -vcodec copy '' @ out) ''.mp4''"
  by (simp add: tmp_stage_def extract_video_def Sox_extract_def Let_def avprog_def video_suffix_def)

lemma extract_audio_eq:
  "extract_audio h self =
     tmp_stage h (\<lambda>out. ''ffmpeg -y -i '' @ infile self @ '' -acodec copy -vn '' @ out) ''.mp3''"
  by (simp add: tmp_stage_def extract_audio_def Sox_extract_def Let_def avprog_def audio_suffix_def)

lemma get_noise_sample_eq:
  "get_noise_sample h audio =
     tmp_stage h (\<lambda>out. ''ffmpeg -y -i '' @ pct_s audio @ '' -acodec copy -ss 00:00:00 -t 00:00:01 ''
                          @ out) ''.mp3''"
  by (simp add: tmp_stage_def get_noise_sample_def Let_def avprog_def audio_suffix_def noise_len_def)

lemma gen_noise_profile_eq:
  "gen_noise_profile h sample =
     tmp_stage h (\<lambda>out. ''sox '' @ pct_s sample @ '' -n noiseprof '' @ out) ''.prof''"
  by (simp add: tmp_stage_def gen_noise_profile_def Let_def soxprog_def)

lemma remove_noise_eq:
  "remove_noise h audio profile sensitivity =
     tmp_stage h (\<lambda>out. ''sox '' @ pct_s audio @ '' '' @ out @ '' noisered '' @ pct_s profile @ '' ''
                          @ str_float h sensitivity) ''.mp3''"
  by (simp add: tmp_stage_def remove_noise_def Let_def soxprog_def audio_suffix_def)

lemma increase_volume_eq:
  "increase_volume h audio factor =
     tmp_stage h (\<lambda>out. ''sox -v '' @ str_float h factor @ '' '' @ pct_s audio @ '' '' @ out) ''.mp3''"
  by (simp add: tmp_stage_def increase_volume_def Let_def soxprog_def audio_suffix_def)

lemma merge_eq:
  "merge h self video audio =
     exec_shell_cmd_for_file h
       (''ffmpeg -y -i '' @ pct_s video @ '' -i '' @ pct_s audio @ '' -vcodec copy -acodec copy ''
          @ pct_s (outfile self))
       (outfile self)"
  by (simp add: merge_def Let_def avprog_def)
text \<open>
  A process that fails ends the run and shows in the trace. So in a run whose processes
  all exited with status 0, a stage at the head of a pipeline has succeeded, and the
  rest of the pipeline has run from the world that the stage left.
\<close>

lemma exec_fail_trace:
  assumes "system_status h cmd \<noteq> 0" and "exec_shell_cmd_for_file h cmd out w = (r, w')"
  shows "\<exists>e evs. r = Inl e \<and> trace w' = trace w @ Exec cmd (system_status h cmd) # evs"
  using assms
  by (auto simp add: exec_shell_cmd_for_file_def os_system_def os_unlink_def and_then_def Let_def
      split: option.splits if_splits)

lemma peel_exec:
  assumes run: "and_then (exec_shell_cmd_for_file h cmd out) f w = (r, w')"
      and ok: "\<forall>st \<in> set (exit_statuses (drop k (trace w'))). st = 0"
      and k: "k \<le> length (trace w)"
  obtains w1 where "system_status h cmd = 0"
    and "files w1 = insert (pct_s out) (files w)" and "tmp_names w1 = tmp_names w"
    and "trace w1 = trace w @ [Exec cmd 0]" and "stdout w1 = stdout w"
    and "f out w1 = (r, w')"
proof (cases "system_status h cmd = 0")
  case True
  show ?thesis
    by (rule that [of "w\<lparr>files := insert (pct_s out) (files w), trace := trace w @ [Exec cmd 0]\<rparr>"])
       (use True run in \<open>simp_all add: and_then_def exec_ok\<close>)
next
  case False
  obtain r1 w1 where s: "exec_shell_cmd_for_file h cmd out w = (r1, w1)" by force
  from exec_fail_trace [OF False s] obtain e evs where
    e: "r1 = Inl e" and tr: "trace w1 = trace w @ Exec cmd (system_status h cmd) # evs" by blast
  from run s e have "w' = w1" by (simp add: and_then_def)
  with tr k ok False show ?thesis by simp
qed

lemma peel_tmp:
  assumes run: "and_then (tmp_stage h C sfx) f w = (r, w')"
      and tmp: "r \<noteq> Inl FileExistsError"
      and ok: "\<forall>st \<in> set (exit_statuses (drop k (trace w'))). st = 0"
      and k: "k \<le> length (trace w)"
  obtains n ns w1 where "first_free (files w) (tmp_names w) = Some (n, ns)"
    and "system_status h (C (n @ sfx)) = 0"
    and "files w1 = insert (n @ sfx) (insert n (files w))" and "tmp_names w1 = ns"
    and "trace w1 = trace w @ [Mktemp n, Exec (C (n @ sfx)) 0]" and "stdout w1 = stdout w"
    and "f (Some (n @ sfx)) w1 = (r, w')"
proof (cases "first_free (files w) (tmp_names w)")
  case None
  with run tmp show ?thesis by (simp add: tmp_stage_def and_then_def NamedTemporaryFile_def)
next
  case (Some p)
  obtain n ns where p: "p = (n, ns)" by (cases p)
  let ?w1 = "w\<lparr>files := insert n (files w), tmp_names := ns, trace := trace w @ [Mktemp n]\<rparr>"
  from Some p have ff: "first_free (files w) (tmp_names w) = Some (n, ns)" by simp
  have run1: "and_then (exec_shell_cmd_for_file h (C (n @ sfx)) (Some (n @ sfx))) f ?w1 = (r, w')"
    using run ff by (simp add: tmp_stage_def and_then_def NamedTemporaryFile_def)
  have k1: "k \<le> length (trace ?w1)" using k by simp
  from peel_exec [OF run1 ok k1] obtain w2 where
    "system_status h (C (n @ sfx)) = 0" "files w2 = insert (pct_s (Some (n @ sfx))) (files ?w1)"
    "tmp_names w2 = tmp_names ?w1" "trace w2 = trace ?w1 @ [Exec (C (n @ sfx)) 0]"
    "stdout w2 = stdout ?w1" "f (Some (n @ sfx)) w2 = (r, w')" by blast
  then show ?thesis using ff by (intro that [of n ns w2]) simp_all
qed

lemma unlink_all_ok:
  "distinct ps \<Longrightarrow> set ps \<subseteq> files w \<Longrightarrow> \<forall>p \<in> set ps. unlink_error h p = None \<Longrightarrow>
   unlink_all h (map Some ps) w =
     (Inr (), w\<lparr>files := files w - set ps, trace := trace w @ map Unlink ps\<rparr>)"
proof (induction ps arbitrary: w)
  case Nil
  then show ?case by simp
next
  case (Cons p ps)
  let ?w1 = "w\<lparr>files := files w - {p}, trace := trace w @ [Unlink p]\<rparr>"
  have 1: "os_unlink h (Some p) w = (Inr (), ?w1)" using Cons.prems by (simp add: os_unlink_def)
  have 2: "unlink_all h (map Some ps) ?w1 =
             (Inr (), ?w1\<lparr>files := files ?w1 - set ps, trace := trace ?w1 @ map Unlink ps\<rparr>)"
    using Cons.prems by (intro Cons.IH) auto
  have 3: "files w - {p} - set ps = files w - insert p (set ps)" by auto
  show ?case using 1 2 3 by (simp add: and_then_def)
qed

lemma and_then_Inr: "m w = (Inr x, w1) \<Longrightarrow> and_then m f w = f x w1"
  by (simp add: and_then_def)

lemma tmp_stage_ok:
  assumes "first_free (files w) (tmp_names w) = Some (n, ns)"
      and "system_status h (C (n @ sfx)) = 0"
  shows "tmp_stage h C sfx w =
           (Inr (Some (n @ sfx)),
            w\<lparr>files := insert (n @ sfx) (insert n (files w)), tmp_names := ns,
              trace := trace w @ [Mktemp n, Exec (C (n @ sfx)) 0]\<rparr>)"
  unfolding tmp_stage_def tmp_then [OF assms(1)] by (simp add: exec_ok [OF assms(2)])

text \<open>The final loop removes nothing but the paths it is given, and only adds to the trace.\<close>

lemma unlink_all_frame:
  "unlink_all h ps w = (r, w') \<Longrightarrow>
   (\<exists>evs. trace w' = trace w @ evs) \<and> (\<forall>f. f \<in> files w \<and> Some f \<notin> set ps \<longrightarrow> f \<in> files w')"
proof (induction ps arbitrary: w)
  case Nil
  then show ?case by simp
next
  case (Cons p ps)
  obtain r1 w1 where u: "os_unlink h p w = (r1, w1)" by force
  then have 1: "(\<exists>evs. trace w1 = trace w @ evs) \<and>
                (\<forall>f. f \<in> files w \<and> Some f \<noteq> p \<longrightarrow> f \<in> files w1)"
    by (auto simp add: os_unlink_def split: option.splits if_splits)
  show ?case
  proof (cases r1)
    case (Inl e)
    with Cons.prems u have "w' = w1" by (simp add: and_then_def)
    with 1 show ?thesis by auto
  next
    case (Inr x)
    with Cons.prems u have "unlink_all h ps w1 = (r, w')" by (simp add: and_then_def)
    from Cons.IH [OF this] 1 show ?thesis by auto
  qed
qed

lemma suffix_neq:
  "xs @ ''.prof'' \<noteq> ys @ ''.mp3''" "xs @ ''.prof'' \<noteq> ys @ ''.mp4''"
  "xs @ ''.mp3'' \<noteq> ys @ ''.prof''" "xs @ ''.mp4'' \<noteq> ys @ ''.prof''"
  "xs @ ''.mp3'' \<noteq> ys @ ''.mp4''" "xs @ ''.mp4'' \<noteq> ys @ ''.mp3''"
  by (auto dest: arg_cong [where f = last])

section \<open>The noise-removal pipeline\<close>

lemma clean_stages:
  assumes run:
    "and_then (tmp_stage h C1 ''.mp4'') (\<lambda>v.
     and_then (tmp_stage h C2 ''.mp3'') (\<lambda>a.
     and_then (tmp_stage h (C3 a) ''.mp3'') (\<lambda>s.
     and_then (tmp_stage h (C4 s) ''.prof'') (\<lambda>p.
     and_then (tmp_stage h (C5 a p) ''.mp3'') (\<lambda>c.
     and_then (exec_shell_cmd_for_file h (C6 v c) out) (\<lambda>_.
     unlink_all h [v, a, s, p, c])))))) w = (r, w')"
      and ok: "\<forall>st \<in> set (exit_statuses (new_events w w')). st = 0"
      and tmp: "r \<noteq> Inl FileExistsError"
  obtains n1 n2 n3 n4 n5 w6 where
    "trace w6 = trace w @
      [Mktemp n1, Exec (C1 (n1 @ ''.mp4'')) 0,
       Mktemp n2, Exec (C2 (n2 @ ''.mp3'')) 0,
       Mktemp n3, Exec (C3 (Some (n2 @ ''.mp3'')) (n3 @ ''.mp3'')) 0,
       Mktemp n4, Exec (C4 (Some (n3 @ ''.mp3'')) (n4 @ ''.prof'')) 0,
       Mktemp n5, Exec (C5 (Some (n2 @ ''.mp3'')) (Some (n4 @ ''.prof'')) (n5 @ ''.mp3'')) 0,
       Exec (C6 (Some (n1 @ ''.mp4'')) (Some (n5 @ ''.mp3''))) 0]"
    "n5 \<in> files w6" "n5 \<notin> files w"
    "n5 \<notin> {n1 @ ''.mp4'', n2 @ ''.mp3'', n3 @ ''.mp3'', n4 @ ''.prof'', n5 @ ''.mp3''}"
    "unlink_all h [Some (n1 @ ''.mp4''), Some (n2 @ ''.mp3''), Some (n3 @ ''.mp3''),
                   Some (n4 @ ''.prof''), Some (n5 @ ''.mp3'')] w6 = (r, w')"
proof -
  let ?k = "length (trace w)"
  have ok': "\<forall>st \<in> set (exit_statuses (drop ?k (trace w'))). st = 0"
    using ok by (simp add: new_events_def)
  have k0: "?k \<le> length (trace w)" by simp
  obtain n1 ns1 w1 where
    f1: "first_free (files w) (tmp_names w) = Some (n1, ns1)"
    and F1: "files w1 = insert (n1 @ ''.mp4'') (insert n1 (files w))"
    and T1: "trace w1 = trace w @ [Mktemp n1, Exec (C1 (n1 @ ''.mp4'')) 0]"
    and run1: "and_then (tmp_stage h C2 ''.mp3'') (\<lambda>a.
      and_then (tmp_stage h (C3 a) ''.mp3'') (\<lambda>s.
      and_then (tmp_stage h (C4 s) ''.prof'') (\<lambda>p.
      and_then (tmp_stage h (C5 a p) ''.mp3'') (\<lambda>c.
      and_then (exec_shell_cmd_for_file h (C6 (Some (n1 @ ''.mp4'')) c) out) (\<lambda>_.
      unlink_all h [Some (n1 @ ''.mp4''), a, s, p, c]))))) w1 = (r, w')"
    by (rule peel_tmp [OF run tmp ok' k0]) (rule that)
  have k1: "?k \<le> length (trace w1)" using T1 by simp
  obtain n2 ns2 w2 where
    f2: "first_free (files w1) (tmp_names w1) = Some (n2, ns2)"
    and F2: "files w2 = insert (n2 @ ''.mp3'') (insert n2 (files w1))"
    and T2: "trace w2 = trace w1 @ [Mktemp n2, Exec (C2 (n2 @ ''.mp3'')) 0]"
    and run2: "and_then (tmp_stage h (C3 (Some (n2 @ ''.mp3''))) ''.mp3'') (\<lambda>s.
      and_then (tmp_stage h (C4 s) ''.prof'') (\<lambda>p.
      and_then (tmp_stage h (C5 (Some (n2 @ ''.mp3'')) p) ''.mp3'') (\<lambda>c.
      and_then (exec_shell_cmd_for_file h (C6 (Some (n1 @ ''.mp4'')) c) out) (\<lambda>_.
      unlink_all h [Some (n1 @ ''.mp4''), Some (n2 @ ''.mp3''), s, p, c])))) w2 = (r, w')"
    by (rule peel_tmp [OF run1 tmp ok' k1]) (rule that)
  have k2: "?k \<le> length (trace w2)" using T1 T2 by simp
  obtain n3 ns3 w3 where
    f3: "first_free (files w2) (tmp_names w2) = Some (n3, ns3)"
    and F3: "files w3 = insert (n3 @ ''.mp3'') (insert n3 (files w2))"
    and T3: "trace w3 = trace w2 @ [Mktemp n3, Exec (C3 (Some (n2 @ ''.mp3'')) (n3 @ ''.mp3'')) 0]"
    and run3: "and_then (tmp_stage h (C4 (Some (n3 @ ''.mp3''))) ''.prof'') (\<lambda>p.
      and_then (tmp_stage h (C5 (Some (n2 @ ''.mp3'')) p) ''.mp3'') (\<lambda>c.
      and_then (exec_shell_cmd_for_file h (C6 (Some (n1 @ ''.mp4'')) c) out) (\<lambda>_.
      unlink_all h [Some (n1 @ ''.mp4''), Some (n2 @ ''.mp3''), Some (n3 @ ''.mp3''), p, c]))) w3
        = (r, w')"
    by (rule peel_tmp [OF run2 tmp ok' k2]) (rule that)
  have k3: "?k \<le> length (trace w3)" using T1 T2 T3 by simp
  obtain n4 ns4 w4 where
    f4: "first_free (files w3) (tmp_names w3) = Some (n4, ns4)"
    and F4: "files w4 = insert (n4 @ ''.prof'') (insert n4 (files w3))"
    and T4: "trace w4 = trace w3 @ [Mktemp n4, Exec (C4 (Some (n3 @ ''.mp3'')) (n4 @ ''.prof'')) 0]"
    and run4: "and_then (tmp_stage h (C5 (Some (n2 @ ''.mp3'')) (Some (n4 @ ''.prof''))) ''.mp3'') (\<lambda>c.
      and_then (exec_shell_cmd_for_file h (C6 (Some (n1 @ ''.mp4'')) c) out) (\<lambda>_.
      unlink_all h [Some (n1 @ ''.mp4''), Some (n2 @ ''.mp3''), Some (n3 @ ''.mp3''),
                  Some (n4 @ ''.prof''), c])) w4 = (r, w')"
    by (rule peel_tmp [OF run3 tmp ok' k3]) (rule that)
  have k4: "?k \<le> length (trace w4)" using T1 T2 T3 T4 by simp
  obtain n5 ns5 w5 where
    f5: "first_free (files w4) (tmp_names w4) = Some (n5, ns5)"
    and F5: "files w5 = insert (n5 @ ''.mp3'') (insert n5 (files w4))"
    and T5: "trace w5 = trace w4 @ [Mktemp n5,
               Exec (C5 (Some (n2 @ ''.mp3'')) (Some (n4 @ ''.prof'')) (n5 @ ''.mp3'')) 0]"
    and run5: "and_then (exec_shell_cmd_for_file h (C6 (Some (n1 @ ''.mp4'')) (Some (n5 @ ''.mp3''))) out)
      (\<lambda>_. unlink_all h [Some (n1 @ ''.mp4''), Some (n2 @ ''.mp3''), Some (n3 @ ''.mp3''),
                  Some (n4 @ ''.prof''), Some (n5 @ ''.mp3'')]) w5 = (r, w')"
    by (rule peel_tmp [OF run4 tmp ok' k4]) (rule that)
  have k5: "?k \<le> length (trace w5)" using T1 T2 T3 T4 T5 by simp
  obtain w6 where
    F6: "files w6 = insert (pct_s out) (files w5)"
    and T6: "trace w6 = trace w5 @ [Exec (C6 (Some (n1 @ ''.mp4'')) (Some (n5 @ ''.mp3''))) 0]"
    and run6: "unlink_all h [Some (n1 @ ''.mp4''), Some (n2 @ ''.mp3''), Some (n3 @ ''.mp3''),
                  Some (n4 @ ''.prof''), Some (n5 @ ''.mp3'')] w6 = (r, w')"
    by (rule peel_exec [OF run5 ok' k5]) (rule that)
  note ff = first_free_Some [OF f1] first_free_Some [OF f2] first_free_Some [OF f3]
    first_free_Some [OF f4] first_free_Some [OF f5]
  show ?thesis
  proof (rule that [of w6 n1 n2 n3 n4 n5])
    show "trace w6 = trace w @
      [Mktemp n1, Exec (C1 (n1 @ ''.mp4'')) 0,
       Mktemp n2, Exec (C2 (n2 @ ''.mp3'')) 0,
       Mktemp n3, Exec (C3 (Some (n2 @ ''.mp3'')) (n3 @ ''.mp3'')) 0,
       Mktemp n4, Exec (C4 (Some (n3 @ ''.mp3'')) (n4 @ ''.prof'')) 0,
       Mktemp n5, Exec (C5 (Some (n2 @ ''.mp3'')) (Some (n4 @ ''.prof'')) (n5 @ ''.mp3'')) 0,
       Exec (C6 (Some (n1 @ ''.mp4'')) (Some (n5 @ ''.mp3''))) 0]"
      by (simp add: T1 T2 T3 T4 T5 T6)
    show "n5 \<in> files w6" by (simp add: F5 F6)
    show "n5 \<notin> files w" using ff F1 F2 F3 F4 by simp
    show "n5 \<notin> {n1 @ ''.mp4'', n2 @ ''.mp3'', n3 @ ''.mp3'', n4 @ ''.prof'', n5 @ ''.mp3''}"
      using ff F1 F2 F3 F4 by simp
    show "unlink_all h [Some (n1 @ ''.mp4''), Some (n2 @ ''.mp3''), Some (n3 @ ''.mp3''),
                   Some (n4 @ ''.prof''), Some (n5 @ ''.mp3'')] w6 = (r, w')"
      by (rule run6)
  qed
qed

lemma clean_eq:
  "clean h job =
     and_then (tmp_stage h (\<lambda>out. ''ffmpeg -y -i '' @ infile job @ '' -an -vcodec copy '' @ out) ''.mp4'') (\<lambda>v.
     and_then (tmp_stage h (\<lambda>out. ''ffmpeg -y -i '' @ infile job @ '' -acodec copy -vn '' @ out) ''.mp3'') (\<lambda>a.
     and_then (tmp_stage h ((\<lambda>a out. ''ffmpeg -y -i '' @ pct_s a
                 @ '' -acodec copy -ss 00:00:00 -t 00:00:01 '' @ out) a) ''.mp3'') (\<lambda>s.
     and_then (tmp_stage h ((\<lambda>s out. ''sox '' @ pct_s s @ '' -n noiseprof '' @ out) s) ''.prof'') (\<lambda>p.
     and_then (tmp_stage h ((\<lambda>a p out. ''sox '' @ pct_s a @ '' '' @ out @ '' noisered '' @ pct_s p
                 @ '' '' @ str_float h noise_sens) a p) ''.mp3'') (\<lambda>c.
     and_then (exec_shell_cmd_for_file h ((\<lambda>v c. ''ffmpeg -y -i '' @ pct_s v @ '' -i '' @ pct_s c
                 @ '' -vcodec copy -acodec copy '' @ pct_s (outfile job)) v c) (outfile job)) (\<lambda>_.
     unlink_all h [v, a, s, p, c]))))))"
  unfolding clean_def extract_video_eq extract_audio_eq get_noise_sample_eq
    gen_noise_profile_eq remove_noise_eq merge_eq ..

text \<open>
  The pipeline run from a world in which the temp-file facility has a free name at each
  of the five requests, on a host on which the six commands exit with status 0 and the
  five intermediate paths can be removed.
\<close>

lemma clean_run:
  assumes t1: "first_free (files w) (tmp_names w) = Some (n1, ns1)"
      and t2: "first_free (files w \<union> {n1, n1 @ ''.mp4''}) ns1 = Some (n2, ns2)"
      and t3: "first_free (files w \<union> {n1, n1 @ ''.mp4'', n2, n2 @ ''.mp3''}) ns2 = Some (n3, ns3)"
      and t4: "first_free (files w \<union> {n1, n1 @ ''.mp4'', n2, n2 @ ''.mp3'', n3, n3 @ ''.mp3''}) ns3
                 = Some (n4, ns4)"
      and t5: "first_free (files w \<union> {n1, n1 @ ''.mp4'', n2, n2 @ ''.mp3'', n3, n3 @ ''.mp3'',
                                      n4, n4 @ ''.prof''}) ns4 = Some (n5, ns5)"
      and s1: "system_status h (C1 (n1 @ ''.mp4'')) = 0"
      and s2: "system_status h (C2 (n2 @ ''.mp3'')) = 0"
      and s3: "system_status h (C3 (Some (n2 @ ''.mp3'')) (n3 @ ''.mp3'')) = 0"
      and s4: "system_status h (C4 (Some (n3 @ ''.mp3'')) (n4 @ ''.prof'')) = 0"
      and s5: "system_status h (C5 (Some (n2 @ ''.mp3'')) (Some (n4 @ ''.prof'')) (n5 @ ''.mp3'')) = 0"
      and s6: "system_status h (C6 (Some (n1 @ ''.mp4'')) (Some (n5 @ ''.mp3''))) = 0"
      and u: "\<forall>f \<in> {n1 @ ''.mp4'', n2 @ ''.mp3'', n3 @ ''.mp3'', n4 @ ''.prof'', n5 @ ''.mp3''}.
                unlink_error h f = None"
      and run: "and_then (tmp_stage h C1 ''.mp4'') (\<lambda>v.
     and_then (tmp_stage h C2 ''.mp3'') (\<lambda>a.
     and_then (tmp_stage h (C3 a) ''.mp3'') (\<lambda>s.
     and_then (tmp_stage h (C4 s) ''.prof'') (\<lambda>p.
     and_then (tmp_stage h (C5 a p) ''.mp3'') (\<lambda>c.
     and_then (exec_shell_cmd_for_file h (C6 v c) out) (\<lambda>_.
     unlink_all h [v, a, s, p, c])))))) w = (r, w')"
  shows "r = Inr ()"
    and "trace w' = trace w @
      [Mktemp n1, Exec (C1 (n1 @ ''.mp4'')) 0,
       Mktemp n2, Exec (C2 (n2 @ ''.mp3'')) 0,
       Mktemp n3, Exec (C3 (Some (n2 @ ''.mp3'')) (n3 @ ''.mp3'')) 0,
       Mktemp n4, Exec (C4 (Some (n3 @ ''.mp3'')) (n4 @ ''.prof'')) 0,
       Mktemp n5, Exec (C5 (Some (n2 @ ''.mp3'')) (Some (n4 @ ''.prof'')) (n5 @ ''.mp3'')) 0,
       Exec (C6 (Some (n1 @ ''.mp4'')) (Some (n5 @ ''.mp3''))) 0,
       Unlink (n1 @ ''.mp4''), Unlink (n2 @ ''.mp3''), Unlink (n3 @ ''.mp3''),
       Unlink (n4 @ ''.prof''), Unlink (n5 @ ''.mp3'')]"
    and "files w' = insert (pct_s out) (files w \<union> {n1, n2, n3, n4, n5})
                  - {n1 @ ''.mp4'', n2 @ ''.mp3'', n3 @ ''.mp3'', n4 @ ''.prof'', n5 @ ''.mp3''}"
    and "tmp_names w' = ns5" and "stdout w' = stdout w"
proof -
  define w1 where "w1 = w\<lparr>files := insert (n1 @ ''.mp4'') (insert n1 (files w)), tmp_names := ns1,
      trace := trace w @ [Mktemp n1, Exec (C1 (n1 @ ''.mp4'')) 0]\<rparr>"
  have e1: "tmp_stage h C1 ''.mp4'' w = (Inr (Some (n1 @ ''.mp4'')), w1)"
    unfolding w1_def by (rule tmp_stage_ok [where C = C1 and sfx = "''.mp4''"]) (simp_all add: t1 s1)
  have F1: "files w1 = files w \<union> {n1, n1 @ ''.mp4''}" and N1: "tmp_names w1 = ns1"
    by (auto simp add: w1_def)
  define w2 where "w2 = w1\<lparr>files := insert (n2 @ ''.mp3'') (insert n2 (files w1)), tmp_names := ns2,
      trace := trace w1 @ [Mktemp n2, Exec (C2 (n2 @ ''.mp3'')) 0]\<rparr>"
  have e2: "tmp_stage h C2 ''.mp3'' w1 = (Inr (Some (n2 @ ''.mp3'')), w2)"
    unfolding w2_def by (rule tmp_stage_ok [where C = C2 and sfx = "''.mp3''"]) (use t2 s2 in \<open>simp_all add: F1 N1\<close>)
  have F2: "files w2 = files w \<union> {n1, n1 @ ''.mp4'', n2, n2 @ ''.mp3''}" and N2: "tmp_names w2 = ns2"
    by (auto simp add: w2_def F1)
  define w3 where "w3 = w2\<lparr>files := insert (n3 @ ''.mp3'') (insert n3 (files w2)), tmp_names := ns3,
      trace := trace w2 @ [Mktemp n3, Exec (C3 (Some (n2 @ ''.mp3'')) (n3 @ ''.mp3'')) 0]\<rparr>"
  have e3: "tmp_stage h (C3 (Some (n2 @ ''.mp3''))) ''.mp3'' w2 = (Inr (Some (n3 @ ''.mp3'')), w3)"
    unfolding w3_def
    by (rule tmp_stage_ok [where C = "C3 (Some (n2 @ ''.mp3''))" and sfx = "''.mp3''"])
       (use t3 s3 in \<open>simp_all add: F2 N2\<close>)
  have F3: "files w3 = files w \<union> {n1, n1 @ ''.mp4'', n2, n2 @ ''.mp3'', n3, n3 @ ''.mp3''}"
    and N3: "tmp_names w3 = ns3"
    by (auto simp add: w3_def F2)
  define w4 where "w4 = w3\<lparr>files := insert (n4 @ ''.prof'') (insert n4 (files w3)), tmp_names := ns4,
      trace := trace w3 @ [Mktemp n4, Exec (C4 (Some (n3 @ ''.mp3'')) (n4 @ ''.prof'')) 0]\<rparr>"
  have e4: "tmp_stage h (C4 (Some (n3 @ ''.mp3''))) ''.prof'' w3 = (Inr (Some (n4 @ ''.prof'')), w4)"
    unfolding w4_def
    by (rule tmp_stage_ok [where C = "C4 (Some (n3 @ ''.mp3''))" and sfx = "''.prof''"])
       (use t4 s4 in \<open>simp_all add: F3 N3\<close>)
  have F4: "files w4 = files w \<union> {n1, n1 @ ''.mp4'', n2, n2 @ ''.mp3'', n3, n3 @ ''.mp3'',
                                   n4, n4 @ ''.prof''}"
    and N4: "tmp_names w4 = ns4"
    by (auto simp add: w4_def F3)
  define w5 where "w5 = w4\<lparr>files := insert (n5 @ ''.mp3'') (insert n5 (files w4)), tmp_names := ns5,
      trace := trace w4 @ [Mktemp n5,
        Exec (C5 (Some (n2 @ ''.mp3'')) (Some (n4 @ ''.prof'')) (n5 @ ''.mp3'')) 0]\<rparr>"
  have e5: "tmp_stage h (C5 (Some (n2 @ ''.mp3'')) (Some (n4 @ ''.prof''))) ''.mp3'' w4
              = (Inr (Some (n5 @ ''.mp3'')), w5)"
    unfolding w5_def
    by (rule tmp_stage_ok [where C = "C5 (Some (n2 @ ''.mp3'')) (Some (n4 @ ''.prof''))"
          and sfx = "''.mp3''"])
       (use t5 s5 in \<open>simp_all add: F4 N4\<close>)
  define w6 where "w6 = w5\<lparr>files := insert (pct_s out) (files w5),
      trace := trace w5 @ [Exec (C6 (Some (n1 @ ''.mp4'')) (Some (n5 @ ''.mp3''))) 0]\<rparr>"
  have e6: "exec_shell_cmd_for_file h (C6 (Some (n1 @ ''.mp4'')) (Some (n5 @ ''.mp3''))) out w5
              = (Inr out, w6)"
    unfolding w6_def by (rule exec_ok [OF s6])
  let ?outs = "[n1 @ ''.mp4'', n2 @ ''.mp3'', n3 @ ''.mp3'', n4 @ ''.prof'', n5 @ ''.mp3'']"
  have F6: "files w6 = insert (pct_s out) (files w \<union> {n1, n1 @ ''.mp4'', n2, n2 @ ''.mp3'', n3,
               n3 @ ''.mp3'', n4, n4 @ ''.prof'', n5, n5 @ ''.mp3''})"
    by (auto simp add: w6_def w5_def F4)
  note ff = first_free_Some [OF t1] first_free_Some [OF t2] first_free_Some [OF t3]
    first_free_Some [OF t4] first_free_Some [OF t5]
  have d: "distinct ?outs" using ff by (auto simp add: suffix_neq)
  have s: "set ?outs \<subseteq> files w6" unfolding F6 by auto
  have u': "\<forall>p \<in> set ?outs. unlink_error h p = None" using u by simp
  define w7 where "w7 = w6\<lparr>files := files w6 - set ?outs, trace := trace w6 @ map Unlink ?outs\<rparr>"
  have e7: "unlink_all h [Some (n1 @ ''.mp4''), Some (n2 @ ''.mp3''), Some (n3 @ ''.mp3''),
              Some (n4 @ ''.prof''), Some (n5 @ ''.mp3'')] w6 = (Inr (), w7)"
    using unlink_all_ok [OF d s u'] by (simp add: w7_def)
  note a = and_then_Inr [where m = "tmp_stage h C1 ''.mp4''" and w = w, OF e1]
    and_then_Inr [where m = "tmp_stage h C2 ''.mp3''" and w = w1, OF e2]
    and_then_Inr [where m = "tmp_stage h (C3 (Some (n2 @ ''.mp3''))) ''.mp3''" and w = w2, OF e3]
    and_then_Inr [where m = "tmp_stage h (C4 (Some (n3 @ ''.mp3''))) ''.prof''" and w = w3, OF e4]
    and_then_Inr [where m = "tmp_stage h (C5 (Some (n2 @ ''.mp3'')) (Some (n4 @ ''.prof''))) ''.mp3''"
      and w = w4, OF e5]
    and_then_Inr [where m = "exec_shell_cmd_for_file h
        (C6 (Some (n1 @ ''.mp4'')) (Some (n5 @ ''.mp3''))) out" and w = w5, OF e6]
  have "(r, w') = (Inr (), w7)"
    unfolding run [symmetric] by (simp only: a e7)
  then have r: "r = Inr ()" and w': "w' = w7" by simp_all
  show "r = Inr ()" by (rule r)
  show "trace w' = trace w @
      [Mktemp n1, Exec (C1 (n1 @ ''.mp4'')) 0,
       Mktemp n2, Exec (C2 (n2 @ ''.mp3'')) 0,
       Mktemp n3, Exec (C3 (Some (n2 @ ''.mp3'')) (n3 @ ''.mp3'')) 0,
       Mktemp n4, Exec (C4 (Some (n3 @ ''.mp3'')) (n4 @ ''.prof'')) 0,
       Mktemp n5, Exec (C5 (Some (n2 @ ''.mp3'')) (Some (n4 @ ''.prof'')) (n5 @ ''.mp3'')) 0,
       Exec (C6 (Some (n1 @ ''.mp4'')) (Some (n5 @ ''.mp3''))) 0,
       Unlink (n1 @ ''.mp4''), Unlink (n2 @ ''.mp3''), Unlink (n3 @ ''.mp3''),
       Unlink (n4 @ ''.prof''), Unlink (n5 @ ''.mp3'')]"
    by (simp add: w' w7_def w6_def w5_def w4_def w3_def w2_def w1_def)
  show "files w' = insert (pct_s out) (files w \<union> {n1, n2, n3, n4, n5})
                  - {n1 @ ''.mp4'', n2 @ ''.mp3'', n3 @ ''.mp3'', n4 @ ''.prof'', n5 @ ''.mp3''}"
    unfolding w' by (simp add: w7_def F6) blast
  show "tmp_names w' = ns5" by (simp add: w' w7_def w6_def w5_def)
  show "stdout w' = stdout w"
    by (simp add: w' w7_def w6_def w5_def w4_def w3_def w2_def w1_def)
qed

text \<open>
  Claim C1. Take a world in which the temp-file facility has a free name at each of its
  five requests (\<open>n1\<close> to \<open>n5\<close> are the names it hands out, each drawn when the files of
  the stages before it are on disk), and a host on which each of the six commands of the
  pipeline, built from these names, exits with status 0 and on which the five
  intermediate paths can be removed. Then \<^verbatim>\<open>clean\<close> returns \<^verbatim>\<open>None\<close>, and what it did
  is exactly this, in this order: video-only stream, audio-only stream, noise sample
  clipped from the audio, noise profile from the sample, noise reduction of the audio with
  the profile and the sensitivity constant, remux of the video and the cleaned audio into
  the output path, and then the removal of the five intermediate files, none of which is
  on disk afterwards. All that is assumed is about the host and the world the run starts
  from.
\<close>

theorem clean_success:
  assumes t1: "first_free (files w) (tmp_names w) = Some (n1, ns1)"
      and t2: "first_free (files w \<union> {n1, n1 @ ''.mp4''}) ns1 = Some (n2, ns2)"
      and t3: "first_free (files w \<union> {n1, n1 @ ''.mp4'', n2, n2 @ ''.mp3''}) ns2 = Some (n3, ns3)"
      and t4: "first_free (files w \<union> {n1, n1 @ ''.mp4'', n2, n2 @ ''.mp3'', n3, n3 @ ''.mp3''}) ns3
                 = Some (n4, ns4)"
      and t5: "first_free (files w \<union> {n1, n1 @ ''.mp4'', n2, n2 @ ''.mp3'', n3, n3 @ ''.mp3'',
                                      n4, n4 @ ''.prof''}) ns4 = Some (n5, ns5)"
      and s1: "system_status h (''ffmpeg -y -i '' @ infile job @ '' -an -vcodec copy '' @ n1 @ ''.mp4'') = 0"
      and s2: "system_status h (''ffmpeg -y -i '' @ infile job @ '' -acodec copy -vn '' @ n2 @ ''.mp3'') = 0"
      and s3: "system_status h (''ffmpeg -y -i '' @ n2 @ ''.mp3''
                 @ '' -acodec copy -ss 00:00:00 -t 00:00:01 '' @ n3 @ ''.mp3'') = 0"
      and s4: "system_status h (''sox '' @ n3 @ ''.mp3'' @ '' -n noiseprof '' @ n4 @ ''.prof'') = 0"
      and s5: "system_status h (''sox '' @ n2 @ ''.mp3'' @ '' '' @ n5 @ ''.mp3'' @ '' noisered ''
                 @ n4 @ ''.prof'' @ '' '' @ str_float h noise_sens) = 0"
      and s6: "system_status h (''ffmpeg -y -i '' @ n1 @ ''.mp4'' @ '' -i '' @ n5 @ ''.mp3''
                 @ '' -vcodec copy -acodec copy '' @ pct_s (outfile job)) = 0"
      and u: "\<forall>f \<in> {n1 @ ''.mp4'', n2 @ ''.mp3'', n3 @ ''.mp3'', n4 @ ''.prof'', n5 @ ''.mp3''}.
                unlink_error h f = None"
  shows "fst (clean h job w) = Inr () \<and>
    new_events w (snd (clean h job w)) =
      [Mktemp n1, Exec (''ffmpeg -y -i '' @ infile job @ '' -an -vcodec copy '' @ n1 @ ''.mp4'') 0,
       Mktemp n2, Exec (''ffmpeg -y -i '' @ infile job @ '' -acodec copy -vn '' @ n2 @ ''.mp3'') 0,
       Mktemp n3, Exec (''ffmpeg -y -i '' @ n2 @ ''.mp3'' @ '' -acodec copy -ss 00:00:00 -t 00:00:01 ''
                          @ n3 @ ''.mp3'') 0,
       Mktemp n4, Exec (''sox '' @ n3 @ ''.mp3'' @ '' -n noiseprof '' @ n4 @ ''.prof'') 0,
       Mktemp n5, Exec (''sox '' @ n2 @ ''.mp3'' @ '' '' @ n5 @ ''.mp3'' @ '' noisered '' @ n4 @ ''.prof''
                          @ '' '' @ str_float h noise_sens) 0,
       Exec (''ffmpeg -y -i '' @ n1 @ ''.mp4'' @ '' -i '' @ n5 @ ''.mp3''
               @ '' -vcodec copy -acodec copy '' @ pct_s (outfile job)) 0,
       Unlink (n1 @ ''.mp4''), Unlink (n2 @ ''.mp3''), Unlink (n3 @ ''.mp3''),
       Unlink (n4 @ ''.prof''), Unlink (n5 @ ''.mp3'')] \<and>
    n1 @ ''.mp4'' \<notin> files (snd (clean h job w)) \<and>
    n2 @ ''.mp3'' \<notin> files (snd (clean h job w)) \<and>
    n3 @ ''.mp3'' \<notin> files (snd (clean h job w)) \<and>
    n4 @ ''.prof'' \<notin> files (snd (clean h job w)) \<and>
    n5 @ ''.mp3'' \<notin> files (snd (clean h job w))"
proof -
  obtain r w' where rw: "clean h job w = (r, w')" by force
  note run = rw [unfolded clean_eq]
  have s3': "system_status h (''ffmpeg -y -i '' @ pct_s (Some (n2 @ ''.mp3''))
                 @ '' -acodec copy -ss 00:00:00 -t 00:00:01 '' @ n3 @ ''.mp3'') = 0"
    using s3 by simp
  have s4': "system_status h (''sox '' @ pct_s (Some (n3 @ ''.mp3'')) @ '' -n noiseprof ''
                 @ n4 @ ''.prof'') = 0"
    using s4 by simp
  have s5': "system_status h (''sox '' @ pct_s (Some (n2 @ ''.mp3'')) @ '' '' @ (n5 @ ''.mp3'')
                 @ '' noisered '' @ pct_s (Some (n4 @ ''.prof'')) @ '' '' @ str_float h noise_sens) = 0"
    using s5 by simp
  have s6': "system_status h (''ffmpeg -y -i '' @ pct_s (Some (n1 @ ''.mp4'')) @ '' -i ''
                 @ pct_s (Some (n5 @ ''.mp3'')) @ '' -vcodec copy -acodec copy ''
                 @ pct_s (outfile job)) = 0"
    using s6 by simp
  note R = clean_run [where h = h
      and ?C1.0 = "\<lambda>out. ''ffmpeg -y -i '' @ infile job @ '' -an -vcodec copy '' @ out"
      and ?C2.0 = "\<lambda>out. ''ffmpeg -y -i '' @ infile job @ '' -acodec copy -vn '' @ out"
      and ?C3.0 = "\<lambda>a out. ''ffmpeg -y -i '' @ pct_s a @ '' -acodec copy -ss 00:00:00 -t 00:00:01 '' @ out"
      and ?C4.0 = "\<lambda>s out. ''sox '' @ pct_s s @ '' -n noiseprof '' @ out"
      and ?C5.0 = "\<lambda>a p out. ''sox '' @ pct_s a @ '' '' @ out @ '' noisered '' @ pct_s p
                 @ '' '' @ str_float h noise_sens"
      and ?C6.0 = "\<lambda>v c. ''ffmpeg -y -i '' @ pct_s v @ '' -i '' @ pct_s c
                 @ '' -vcodec copy -acodec copy '' @ pct_s (outfile job)"
      and out = "outfile job",
      OF t1 t2 t3 t4 t5 s1 s2 s3' s4' s5' s6' u run]
  from R(1) have 1: "fst (clean h job w) = Inr ()" by (simp add: rw)
  from R(2) have 2: "new_events w (snd (clean h job w)) =
      [Mktemp n1, Exec (''ffmpeg -y -i '' @ infile job @ '' -an -vcodec copy '' @ n1 @ ''.mp4'') 0,
       Mktemp n2, Exec (''ffmpeg -y -i '' @ infile job @ '' -acodec copy -vn '' @ n2 @ ''.mp3'') 0,
       Mktemp n3, Exec (''ffmpeg -y -i '' @ n2 @ ''.mp3'' @ '' -acodec copy -ss 00:00:00 -t 00:00:01 ''
                          @ n3 @ ''.mp3'') 0,
       Mktemp n4, Exec (''sox '' @ n3 @ ''.mp3'' @ '' -n noiseprof '' @ n4 @ ''.prof'') 0,
       Mktemp n5, Exec (''sox '' @ n2 @ ''.mp3'' @ '' '' @ n5 @ ''.mp3'' @ '' noisered '' @ n4 @ ''.prof''
                          @ '' '' @ str_float h noise_sens) 0,
       Exec (''ffmpeg -y -i '' @ n1 @ ''.mp4'' @ '' -i '' @ n5 @ ''.mp3''
               @ '' -vcodec copy -acodec copy '' @ pct_s (outfile job)) 0,
       Unlink (n1 @ ''.mp4''), Unlink (n2 @ ''.mp3''), Unlink (n3 @ ''.mp3''),
       Unlink (n4 @ ''.prof''), Unlink (n5 @ ''.mp3'')]"
    by (simp add: rw new_events_def)
  from R(3) have 3: "n1 @ ''.mp4'' \<notin> files (snd (clean h job w))"
    "n2 @ ''.mp3'' \<notin> files (snd (clean h job w))"
    "n3 @ ''.mp3'' \<notin> files (snd (clean h job w))"
    "n4 @ ''.prof'' \<notin> files (snd (clean h job w))"
    "n5 @ ''.mp3'' \<notin> files (snd (clean h job w))"
    by (simp_all add: rw)
  from 1 2 3 show ?thesis by (intro conjI)
qed

lemma clean_demo:
  "clean host_ok (Sox ''input.mp4'' (Some ''clean.mp4'') False) demo_world =
   (Inr (),
    \<lparr>files = {''clean.mp4'', ''/tmp/tmpe'', ''/tmp/tmpd'', ''/tmp/tmpc'', ''/tmp/tmpb'',
              ''/tmp/tmpa'', ''input.mp4''},
     tmp_names = [],
     trace =
       [Mktemp ''/tmp/tmpa'',
        Exec ''ffmpeg -y -i input.mp4 -an -vcodec copy /tmp/tmpa.mp4'' 0,
        Mktemp ''/tmp/tmpb'',
        Exec ''ffmpeg -y -i input.mp4 -acodec copy -vn /tmp/tmpb.mp3'' 0,
        Mktemp ''/tmp/tmpc'',
        Exec ''ffmpeg -y -i /tmp/tmpb.mp3 -acodec copy -ss 00:00:00 -t 00:00:01 /tmp/tmpc.mp3'' 0,
        Mktemp ''/tmp/tmpd'',
        Exec ''sox /tmp/tmpc.mp3 -n noiseprof /tmp/tmpd.prof'' 0,
        Mktemp ''/tmp/tmpe'',
        Exec ''sox /tmp/tmpb.mp3 /tmp/tmpe.mp3 noisered /tmp/tmpd.prof 0.21'' 0,
        Exec ''ffmpeg -y -i /tmp/tmpa.mp4 -i /tmp/tmpe.mp3 -vcodec copy -acodec copy clean.mp4'' 0,
        Unlink ''/tmp/tmpa.mp4'', Unlink ''/tmp/tmpb.mp3'', Unlink ''/tmp/tmpc.mp3'',
        Unlink ''/tmp/tmpd.prof'', Unlink ''/tmp/tmpe.mp3''],
     stdout = []\<rparr>)"
  by (simp add: clean_eq tmp_stage_def and_then_def NamedTemporaryFile_def exec_ok
      os_unlink_def host_ok_def demo_world_def Sox_def noise_sens_def insert_Diff_if)

theorem clean_success_witness:
  "first_free (files demo_world) (tmp_names demo_world)
     = Some (''/tmp/tmpa'', [''/tmp/tmpb'', ''/tmp/tmpc'', ''/tmp/tmpd'', ''/tmp/tmpe'']) \<and>
   first_free (files demo_world \<union> {''/tmp/tmpa'', ''/tmp/tmpa.mp4''})
       [''/tmp/tmpb'', ''/tmp/tmpc'', ''/tmp/tmpd'', ''/tmp/tmpe'']
     = Some (''/tmp/tmpb'', [''/tmp/tmpc'', ''/tmp/tmpd'', ''/tmp/tmpe'']) \<and>
   first_free (files demo_world \<union> {''/tmp/tmpa'', ''/tmp/tmpa.mp4'', ''/tmp/tmpb'', ''/tmp/tmpb.mp3''})
       [''/tmp/tmpc'', ''/tmp/tmpd'', ''/tmp/tmpe'']
     = Some (''/tmp/tmpc'', [''/tmp/tmpd'', ''/tmp/tmpe'']) \<and>
   first_free (files demo_world \<union> {''/tmp/tmpa'', ''/tmp/tmpa.mp4'', ''/tmp/tmpb'', ''/tmp/tmpb.mp3'',
                                    ''/tmp/tmpc'', ''/tmp/tmpc.mp3''})
       [''/tmp/tmpd'', ''/tmp/tmpe'']
     = Some (''/tmp/tmpd'', [''/tmp/tmpe'']) \<and>
   first_free (files demo_world \<union> {''/tmp/tmpa'', ''/tmp/tmpa.mp4'', ''/tmp/tmpb'', ''/tmp/tmpb.mp3'',
                                    ''/tmp/tmpc'', ''/tmp/tmpc.mp3'', ''/tmp/tmpd'', ''/tmp/tmpd.prof''})
       [''/tmp/tmpe'']
     = Some (''/tmp/tmpe'', []) \<and>
   system_status host_ok ''ffmpeg -y -i input.mp4 -an -vcodec copy /tmp/tmpa.mp4'' = 0 \<and>
   system_status host_ok ''ffmpeg -y -i input.mp4 -acodec copy -vn /tmp/tmpb.mp3'' = 0 \<and>
   system_status host_ok
     ''ffmpeg -y -i /tmp/tmpb.mp3 -acodec copy -ss 00:00:00 -t 00:00:01 /tmp/tmpc.mp3'' = 0 \<and>
   system_status host_ok ''sox /tmp/tmpc.mp3 -n noiseprof /tmp/tmpd.prof'' = 0 \<and>
   system_status host_ok ''sox /tmp/tmpb.mp3 /tmp/tmpe.mp3 noisered /tmp/tmpd.prof 0.21'' = 0 \<and>
   system_status host_ok
     ''ffmpeg -y -i /tmp/tmpa.mp4 -i /tmp/tmpe.mp3 -vcodec copy -acodec copy clean.mp4'' = 0 \<and>
   unlink_error host_ok ''/tmp/tmpa.mp4'' = None \<and> unlink_error host_ok ''/tmp/tmpb.mp3'' = None \<and>
   unlink_error host_ok ''/tmp/tmpc.mp3'' = None \<and> unlink_error host_ok ''/tmp/tmpd.prof'' = None \<and>
   unlink_error host_ok ''/tmp/tmpe.mp3'' = None \<and>
   fst (clean host_ok (Sox ''input.mp4'' (Some ''clean.mp4'') False) demo_world) = Inr () \<and>
   new_events demo_world (snd (clean host_ok (Sox ''input.mp4'' (Some ''clean.mp4'') False) demo_world)) =
       [Mktemp ''/tmp/tmpa'',
        Exec ''ffmpeg -y -i input.mp4 -an -vcodec copy /tmp/tmpa.mp4'' 0,
        Mktemp ''/tmp/tmpb'',
        Exec ''ffmpeg -y -i input.mp4 -acodec copy -vn /tmp/tmpb.mp3'' 0,
        Mktemp ''/tmp/tmpc'',
        Exec ''ffmpeg -y -i /tmp/tmpb.mp3 -acodec copy -ss 00:00:00 -t 00:00:01 /tmp/tmpc.mp3'' 0,
        Mktemp ''/tmp/tmpd'',
        Exec ''sox /tmp/tmpc.mp3 -n noiseprof /tmp/tmpd.prof'' 0,
        Mktemp ''/tmp/tmpe'',
        Exec ''sox /tmp/tmpb.mp3 /tmp/tmpe.mp3 noisered /tmp/tmpd.prof 0.21'' 0,
        Exec ''ffmpeg -y -i /tmp/tmpa.mp4 -i /tmp/tmpe.mp3 -vcodec copy -acodec copy clean.mp4'' 0,
        Unlink ''/tmp/tmpa.mp4'', Unlink ''/tmp/tmpb.mp3'', Unlink ''/tmp/tmpc.mp3'',
        Unlink ''/tmp/tmpd.prof'', Unlink ''/tmp/tmpe.mp3''] \<and>
   ''/tmp/tmpa.mp4'' \<notin> files (snd (clean host_ok (Sox ''input.mp4'' (Some ''clean.mp4'') False) demo_world)) \<and>
   ''/tmp/tmpe.mp3'' \<notin> files (snd (clean host_ok (Sox ''input.mp4'' (Some ''clean.mp4'') False) demo_world))"
proof -
  let ?J = "Sox ''input.mp4'' (Some ''clean.mp4'') False"
  have t1: "first_free (files demo_world) (tmp_names demo_world)
     = Some (''/tmp/tmpa'', [''/tmp/tmpb'', ''/tmp/tmpc'', ''/tmp/tmpd'', ''/tmp/tmpe''])"
    by (simp add: demo_world_def)
  have t2: "first_free (files demo_world \<union> {''/tmp/tmpa'', ''/tmp/tmpa'' @ ''.mp4''})
       [''/tmp/tmpb'', ''/tmp/tmpc'', ''/tmp/tmpd'', ''/tmp/tmpe'']
     = Some (''/tmp/tmpb'', [''/tmp/tmpc'', ''/tmp/tmpd'', ''/tmp/tmpe''])"
    by (simp add: demo_world_def)
  have t3: "first_free (files demo_world \<union> {''/tmp/tmpa'', ''/tmp/tmpa'' @ ''.mp4'', ''/tmp/tmpb'',
         ''/tmp/tmpb'' @ ''.mp3''})
       [''/tmp/tmpc'', ''/tmp/tmpd'', ''/tmp/tmpe'']
     = Some (''/tmp/tmpc'', [''/tmp/tmpd'', ''/tmp/tmpe''])"
    by (simp add: demo_world_def)
  have t4: "first_free (files demo_world \<union> {''/tmp/tmpa'', ''/tmp/tmpa'' @ ''.mp4'', ''/tmp/tmpb'',
         ''/tmp/tmpb'' @ ''.mp3'', ''/tmp/tmpc'', ''/tmp/tmpc'' @ ''.mp3''})
       [''/tmp/tmpd'', ''/tmp/tmpe'']
     = Some (''/tmp/tmpd'', [''/tmp/tmpe''])"
    by (simp add: demo_world_def)
  have t5: "first_free (files demo_world \<union> {''/tmp/tmpa'', ''/tmp/tmpa'' @ ''.mp4'', ''/tmp/tmpb'',
         ''/tmp/tmpb'' @ ''.mp3'', ''/tmp/tmpc'', ''/tmp/tmpc'' @ ''.mp3'', ''/tmp/tmpd'',
         ''/tmp/tmpd'' @ ''.prof''})
       [''/tmp/tmpe'']
     = Some (''/tmp/tmpe'', [])"
    by (simp add: demo_world_def)
  have st: "system_status host_ok = (\<lambda>_. 0)" and ue: "unlink_error host_ok = (\<lambda>_. None)"
    by (simp_all add: host_ok_def)
  have J: "infile ?J = ''input.mp4''" "pct_s (outfile ?J) = ''clean.mp4''"
    "str_float host_ok noise_sens = ''0.21''"
    by (simp_all add: Sox_def host_ok_def noise_sens_def)
  have C: "fst (clean host_ok ?J demo_world) = Inr () \<and>
    new_events demo_world (snd (clean host_ok ?J demo_world)) =
      [Mktemp ''/tmp/tmpa'', Exec (''ffmpeg -y -i '' @ infile ?J @ '' -an -vcodec copy '' @ ''/tmp/tmpa'' @ ''.mp4'') 0,
       Mktemp ''/tmp/tmpb'', Exec (''ffmpeg -y -i '' @ infile ?J @ '' -acodec copy -vn '' @ ''/tmp/tmpb'' @ ''.mp3'') 0,
       Mktemp ''/tmp/tmpc'', Exec (''ffmpeg -y -i '' @ ''/tmp/tmpb'' @ ''.mp3'' @ '' -acodec copy -ss 00:00:00 -t 00:00:01 ''
                          @ ''/tmp/tmpc'' @ ''.mp3'') 0,
       Mktemp ''/tmp/tmpd'', Exec (''sox '' @ ''/tmp/tmpc'' @ ''.mp3'' @ '' -n noiseprof '' @ ''/tmp/tmpd'' @ ''.prof'') 0,
       Mktemp ''/tmp/tmpe'', Exec (''sox '' @ ''/tmp/tmpb'' @ ''.mp3'' @ '' '' @ ''/tmp/tmpe'' @ ''.mp3'' @ '' noisered '' @ ''/tmp/tmpd'' @ ''.prof''
                          @ '' '' @ str_float host_ok noise_sens) 0,
       Exec (''ffmpeg -y -i '' @ ''/tmp/tmpa'' @ ''.mp4'' @ '' -i '' @ ''/tmp/tmpe'' @ ''.mp3''
               @ '' -vcodec copy -acodec copy '' @ pct_s (outfile ?J)) 0,
       Unlink (''/tmp/tmpa'' @ ''.mp4''), Unlink (''/tmp/tmpb'' @ ''.mp3''), Unlink (''/tmp/tmpc'' @ ''.mp3''),
       Unlink (''/tmp/tmpd'' @ ''.prof''), Unlink (''/tmp/tmpe'' @ ''.mp3'')] \<and>
    ''/tmp/tmpa'' @ ''.mp4'' \<notin> files (snd (clean host_ok ?J demo_world)) \<and>
    ''/tmp/tmpb'' @ ''.mp3'' \<notin> files (snd (clean host_ok ?J demo_world)) \<and>
    ''/tmp/tmpc'' @ ''.mp3'' \<notin> files (snd (clean host_ok ?J demo_world)) \<and>
    ''/tmp/tmpd'' @ ''.prof'' \<notin> files (snd (clean host_ok ?J demo_world)) \<and>
    ''/tmp/tmpe'' @ ''.mp3'' \<notin> files (snd (clean host_ok ?J demo_world))"
    by (rule clean_success [OF t1 t2 t3 t4 t5]) (simp_all add: st ue)
  show ?thesis
    using C t1 t2 t3 t4 t5 unfolding J by (simp add: st ue)
qed

section \<open>The volume pipeline\<close>

lemma incrvol_stages:
  assumes run:
    "and_then (tmp_stage h C1 ''.mp4'') (\<lambda>v.
     and_then (tmp_stage h C2 ''.mp3'') (\<lambda>a.
     and_then (tmp_stage h (C3 a) ''.mp3'') (\<lambda>l.
     and_then (exec_shell_cmd_for_file h (C4 v l) out) (\<lambda>_.
     unlink_all h [v, a, l])))) w = (r, w')"
      and ok: "\<forall>st \<in> set (exit_statuses (new_events w w')). st = 0"
      and tmp: "r \<noteq> Inl FileExistsError"
  obtains n1 n2 n3 w4 where
    "trace w4 = trace w @
      [Mktemp n1, Exec (C1 (n1 @ ''.mp4'')) 0,
       Mktemp n2, Exec (C2 (n2 @ ''.mp3'')) 0,
       Mktemp n3, Exec (C3 (Some (n2 @ ''.mp3'')) (n3 @ ''.mp3'')) 0,
       Exec (C4 (Some (n1 @ ''.mp4'')) (Some (n3 @ ''.mp3''))) 0]"
    "n3 \<in> files w4" "n3 \<notin> files w"
    "n3 \<notin> {n1 @ ''.mp4'', n2 @ ''.mp3'', n3 @ ''.mp3''}"
    "unlink_all h [Some (n1 @ ''.mp4''), Some (n2 @ ''.mp3''), Some (n3 @ ''.mp3'')] w4 = (r, w')"
proof -
  let ?k = "length (trace w)"
  have ok': "\<forall>st \<in> set (exit_statuses (drop ?k (trace w'))). st = 0"
    using ok by (simp add: new_events_def)
  have k0: "?k \<le> length (trace w)" by simp
  obtain n1 ns1 w1 where
    f1: "first_free (files w) (tmp_names w) = Some (n1, ns1)"
    and F1: "files w1 = insert (n1 @ ''.mp4'') (insert n1 (files w))"
    and T1: "trace w1 = trace w @ [Mktemp n1, Exec (C1 (n1 @ ''.mp4'')) 0]"
    and run1: "and_then (tmp_stage h C2 ''.mp3'') (\<lambda>a.
      and_then (tmp_stage h (C3 a) ''.mp3'') (\<lambda>l.
      and_then (exec_shell_cmd_for_file h (C4 (Some (n1 @ ''.mp4'')) l) out) (\<lambda>_.
      unlink_all h [Some (n1 @ ''.mp4''), a, l]))) w1 = (r, w')"
    by (rule peel_tmp [OF run tmp ok' k0]) (rule that)
  have k1: "?k \<le> length (trace w1)" using T1 by simp
  obtain n2 ns2 w2 where
    f2: "first_free (files w1) (tmp_names w1) = Some (n2, ns2)"
    and F2: "files w2 = insert (n2 @ ''.mp3'') (insert n2 (files w1))"
    and T2: "trace w2 = trace w1 @ [Mktemp n2, Exec (C2 (n2 @ ''.mp3'')) 0]"
    and run2: "and_then (tmp_stage h (C3 (Some (n2 @ ''.mp3''))) ''.mp3'') (\<lambda>l.
      and_then (exec_shell_cmd_for_file h (C4 (Some (n1 @ ''.mp4'')) l) out) (\<lambda>_.
      unlink_all h [Some (n1 @ ''.mp4''), Some (n2 @ ''.mp3''), l])) w2 = (r, w')"
    by (rule peel_tmp [OF run1 tmp ok' k1]) (rule that)
  have k2: "?k \<le> length (trace w2)" using T1 T2 by simp
  obtain n3 ns3 w3 where
    f3: "first_free (files w2) (tmp_names w2) = Some (n3, ns3)"
    and F3: "files w3 = insert (n3 @ ''.mp3'') (insert n3 (files w2))"
    and T3: "trace w3 = trace w2 @ [Mktemp n3, Exec (C3 (Some (n2 @ ''.mp3'')) (n3 @ ''.mp3'')) 0]"
    and run3: "and_then (exec_shell_cmd_for_file h (C4 (Some (n1 @ ''.mp4'')) (Some (n3 @ ''.mp3''))) out)
      (\<lambda>_. unlink_all h [Some (n1 @ ''.mp4''), Some (n2 @ ''.mp3''), Some (n3 @ ''.mp3'')]) w3
        = (r, w')"
    by (rule peel_tmp [OF run2 tmp ok' k2]) (rule that)
  have k3: "?k \<le> length (trace w3)" using T1 T2 T3 by simp
  obtain w4 where
    F4: "files w4 = insert (pct_s out) (files w3)"
    and T4: "trace w4 = trace w3 @ [Exec (C4 (Some (n1 @ ''.mp4'')) (Some (n3 @ ''.mp3''))) 0]"
    and run4: "unlink_all h [Some (n1 @ ''.mp4''), Some (n2 @ ''.mp3''), Some (n3 @ ''.mp3'')] w4
                  = (r, w')"
    by (rule peel_exec [OF run3 ok' k3]) (rule that)
  note ff = first_free_Some [OF f1] first_free_Some [OF f2] first_free_Some [OF f3]
  show ?thesis
  proof (rule that [of w4 n1 n2 n3])
    show "trace w4 = trace w @
      [Mktemp n1, Exec (C1 (n1 @ ''.mp4'')) 0,
       Mktemp n2, Exec (C2 (n2 @ ''.mp3'')) 0,
       Mktemp n3, Exec (C3 (Some (n2 @ ''.mp3'')) (n3 @ ''.mp3'')) 0,
       Exec (C4 (Some (n1 @ ''.mp4'')) (Some (n3 @ ''.mp3''))) 0]"
      by (simp add: T1 T2 T3 T4)
    show "n3 \<in> files w4" by (simp add: F3 F4)
    show "n3 \<notin> files w" using ff F1 F2 by simp
    show "n3 \<notin> {n1 @ ''.mp4'', n2 @ ''.mp3'', n3 @ ''.mp3''}"
      using ff F1 F2 by simp
    show "unlink_all h [Some (n1 @ ''.mp4''), Some (n2 @ ''.mp3''), Some (n3 @ ''.mp3'')] w4 = (r, w')"
      by (rule run4)
  qed
qed

lemma incrvol_eq:
  "incrvol h job factor =
     and_then (tmp_stage h (\<lambda>out. ''ffmpeg -y -i '' @ infile job @ '' -an -vcodec copy '' @ out) ''.mp4'') (\<lambda>v.
     and_then (tmp_stage h (\<lambda>out. ''ffmpeg -y -i '' @ infile job @ '' -acodec copy -vn '' @ out) ''.mp3'') (\<lambda>a.
     and_then (tmp_stage h ((\<lambda>a out. ''sox -v '' @ str_float h factor @ '' '' @ pct_s a @ '' '' @ out) a) ''.mp3'') (\<lambda>l.
     and_then (exec_shell_cmd_for_file h ((\<lambda>v l. ''ffmpeg -y -i '' @ pct_s v @ '' -i '' @ pct_s l
                 @ '' -vcodec copy -acodec copy '' @ pct_s (outfile job)) v l) (outfile job)) (\<lambda>_.
     unlink_all h [v, a, l]))))"
  unfolding incrvol_def extract_video_eq extract_audio_eq increase_volume_eq merge_eq ..

text \<open>
  The volume pipeline run from a world in which the temp-file facility has a free name at
  each of the three requests, on a host on which the four commands exit with status 0 and
  the three intermediate paths can be removed.
\<close>

lemma incrvol_run:
  assumes t1: "first_free (files w) (tmp_names w) = Some (n1, ns1)"
      and t2: "first_free (files w \<union> {n1, n1 @ ''.mp4''}) ns1 = Some (n2, ns2)"
      and t3: "first_free (files w \<union> {n1, n1 @ ''.mp4'', n2, n2 @ ''.mp3''}) ns2 = Some (n3, ns3)"
      and s1: "system_status h (C1 (n1 @ ''.mp4'')) = 0"
      and s2: "system_status h (C2 (n2 @ ''.mp3'')) = 0"
      and s3: "system_status h (C3 (Some (n2 @ ''.mp3'')) (n3 @ ''.mp3'')) = 0"
      and s4: "system_status h (C4 (Some (n1 @ ''.mp4'')) (Some (n3 @ ''.mp3''))) = 0"
      and u: "\<forall>f \<in> {n1 @ ''.mp4'', n2 @ ''.mp3'', n3 @ ''.mp3''}. unlink_error h f = None"
      and run: "and_then (tmp_stage h C1 ''.mp4'') (\<lambda>v.
     and_then (tmp_stage h C2 ''.mp3'') (\<lambda>a.
     and_then (tmp_stage h (C3 a) ''.mp3'') (\<lambda>l.
     and_then (exec_shell_cmd_for_file h (C4 v l) out) (\<lambda>_.
     unlink_all h [v, a, l])))) w = (r, w')"
  shows "r = Inr ()"
    and "trace w' = trace w @
      [Mktemp n1, Exec (C1 (n1 @ ''.mp4'')) 0,
       Mktemp n2, Exec (C2 (n2 @ ''.mp3'')) 0,
       Mktemp n3, Exec (C3 (Some (n2 @ ''.mp3'')) (n3 @ ''.mp3'')) 0,
       Exec (C4 (Some (n1 @ ''.mp4'')) (Some (n3 @ ''.mp3''))) 0,
       Unlink (n1 @ ''.mp4''), Unlink (n2 @ ''.mp3''), Unlink (n3 @ ''.mp3'')]"
    and "files w' = insert (pct_s out) (files w \<union> {n1, n2, n3})
                  - {n1 @ ''.mp4'', n2 @ ''.mp3'', n3 @ ''.mp3''}"
    and "tmp_names w' = ns3" and "stdout w' = stdout w"
proof -
  define w1 where "w1 = w\<lparr>files := insert (n1 @ ''.mp4'') (insert n1 (files w)), tmp_names := ns1,
      trace := trace w @ [Mktemp n1, Exec (C1 (n1 @ ''.mp4'')) 0]\<rparr>"
  have e1: "tmp_stage h C1 ''.mp4'' w = (Inr (Some (n1 @ ''.mp4'')), w1)"
    unfolding w1_def by (rule tmp_stage_ok [where C = C1 and sfx = "''.mp4''"]) (simp_all add: t1 s1)
  have F1: "files w1 = files w \<union> {n1, n1 @ ''.mp4''}" and N1: "tmp_names w1 = ns1"
    by (auto simp add: w1_def)
  define w2 where "w2 = w1\<lparr>files := insert (n2 @ ''.mp3'') (insert n2 (files w1)), tmp_names := ns2,
      trace := trace w1 @ [Mktemp n2, Exec (C2 (n2 @ ''.mp3'')) 0]\<rparr>"
  have e2: "tmp_stage h C2 ''.mp3'' w1 = (Inr (Some (n2 @ ''.mp3'')), w2)"
    unfolding w2_def by (rule tmp_stage_ok [where C = C2 and sfx = "''.mp3''"]) (use t2 s2 in \<open>simp_all add: F1 N1\<close>)
  have F2: "files w2 = files w \<union> {n1, n1 @ ''.mp4'', n2, n2 @ ''.mp3''}" and N2: "tmp_names w2 = ns2"
    by (auto simp add: w2_def F1)
  define w3 where "w3 = w2\<lparr>files := insert (n3 @ ''.mp3'') (insert n3 (files w2)), tmp_names := ns3,
      trace := trace w2 @ [Mktemp n3, Exec (C3 (Some (n2 @ ''.mp3'')) (n3 @ ''.mp3'')) 0]\<rparr>"
  have e3: "tmp_stage h (C3 (Some (n2 @ ''.mp3''))) ''.mp3'' w2 = (Inr (Some (n3 @ ''.mp3'')), w3)"
    unfolding w3_def
    by (rule tmp_stage_ok [where C = "C3 (Some (n2 @ ''.mp3''))" and sfx = "''.mp3''"])
       (use t3 s3 in \<open>simp_all add: F2 N2\<close>)
  define w4 where "w4 = w3\<lparr>files := insert (pct_s out) (files w3),
      trace := trace w3 @ [Exec (C4 (Some (n1 @ ''.mp4'')) (Some (n3 @ ''.mp3''))) 0]\<rparr>"
  have e4: "exec_shell_cmd_for_file h (C4 (Some (n1 @ ''.mp4'')) (Some (n3 @ ''.mp3''))) out w3
              = (Inr out, w4)"
    unfolding w4_def by (rule exec_ok [OF s4])
  let ?outs = "[n1 @ ''.mp4'', n2 @ ''.mp3'', n3 @ ''.mp3'']"
  have F4: "files w4 = insert (pct_s out) (files w \<union> {n1, n1 @ ''.mp4'', n2, n2 @ ''.mp3'', n3,
               n3 @ ''.mp3''})"
    by (auto simp add: w4_def w3_def F2)
  note ff = first_free_Some [OF t1] first_free_Some [OF t2] first_free_Some [OF t3]
  have d: "distinct ?outs" using ff by (auto simp add: suffix_neq)
  have s: "set ?outs \<subseteq> files w4" unfolding F4 by auto
  have u': "\<forall>p \<in> set ?outs. unlink_error h p = None" using u by simp
  define w5 where "w5 = w4\<lparr>files := files w4 - set ?outs, trace := trace w4 @ map Unlink ?outs\<rparr>"
  have e5: "unlink_all h [Some (n1 @ ''.mp4''), Some (n2 @ ''.mp3''), Some (n3 @ ''.mp3'')] w4
              = (Inr (), w5)"
    using unlink_all_ok [OF d s u'] by (simp add: w5_def)
  note a = and_then_Inr [where m = "tmp_stage h C1 ''.mp4''" and w = w, OF e1]
    and_then_Inr [where m = "tmp_stage h C2 ''.mp3''" and w = w1, OF e2]
    and_then_Inr [where m = "tmp_stage h (C3 (Some (n2 @ ''.mp3''))) ''.mp3''" and w = w2, OF e3]
    and_then_Inr [where m = "exec_shell_cmd_for_file h
        (C4 (Some (n1 @ ''.mp4'')) (Some (n3 @ ''.mp3''))) out" and w = w3, OF e4]
  have "(r, w') = (Inr (), w5)"
    unfolding run [symmetric] by (simp only: a e5)
  then have r: "r = Inr ()" and w': "w' = w5" by simp_all
  show "r = Inr ()" by (rule r)
  show "trace w' = trace w @
      [Mktemp n1, Exec (C1 (n1 @ ''.mp4'')) 0,
       Mktemp n2, Exec (C2 (n2 @ ''.mp3'')) 0,
       Mktemp n3, Exec (C3 (Some (n2 @ ''.mp3'')) (n3 @ ''.mp3'')) 0,
       Exec (C4 (Some (n1 @ ''.mp4'')) (Some (n3 @ ''.mp3''))) 0,
       Unlink (n1 @ ''.mp4''), Unlink (n2 @ ''.mp3''), Unlink (n3 @ ''.mp3'')]"
    by (simp add: w' w5_def w4_def w3_def w2_def w1_def)
  show "files w' = insert (pct_s out) (files w \<union> {n1, n2, n3})
                  - {n1 @ ''.mp4'', n2 @ ''.mp3'', n3 @ ''.mp3''}"
    unfolding w' by (simp add: w5_def F4) blast
  show "tmp_names w' = ns3" by (simp add: w' w5_def w4_def w3_def)
  show "stdout w' = stdout w"
    by (simp add: w' w5_def w4_def w3_def w2_def w1_def)
qed

text \<open>
  Claim C4. Take a world in which the temp-file facility has a free name at each of its
  three requests, and a host on which each of the four commands of the pipeline, built
  from these names and the factor, exits with status 0 and on which the three
  intermediate paths can be removed. Then \<^verbatim>\<open>incrvol\<close> returns \<^verbatim>\<open>None\<close>, and what it did
  is exactly this, in this order: video-only stream, audio-only stream, the audio scaled
  by the factor, remux of the video and the louder audio into the output path, and then
  the removal of the three intermediate files, none of which is on disk afterwards. All
  that is assumed is about the host and the world the run starts from.
\<close>

theorem incrvol_success:
  assumes t1: "first_free (files w) (tmp_names w) = Some (n1, ns1)"
      and t2: "first_free (files w \<union> {n1, n1 @ ''.mp4''}) ns1 = Some (n2, ns2)"
      and t3: "first_free (files w \<union> {n1, n1 @ ''.mp4'', n2, n2 @ ''.mp3''}) ns2 = Some (n3, ns3)"
      and s1: "system_status h (''ffmpeg -y -i '' @ infile job @ '' -an -vcodec copy '' @ n1 @ ''.mp4'') = 0"
      and s2: "system_status h (''ffmpeg -y -i '' @ infile job @ '' -acodec copy -vn '' @ n2 @ ''.mp3'') = 0"
      and s3: "system_status h (''sox -v '' @ str_float h factor @ '' '' @ n2 @ ''.mp3'' @ '' ''
                 @ n3 @ ''.mp3'') = 0"
      and s4: "system_status h (''ffmpeg -y -i '' @ n1 @ ''.mp4'' @ '' -i '' @ n3 @ ''.mp3''
                 @ '' -vcodec copy -acodec copy '' @ pct_s (outfile job)) = 0"
      and u: "\<forall>f \<in> {n1 @ ''.mp4'', n2 @ ''.mp3'', n3 @ ''.mp3''}. unlink_error h f = None"
  shows "fst (incrvol h job factor w) = Inr () \<and>
    new_events w (snd (incrvol h job factor w)) =
      [Mktemp n1, Exec (''ffmpeg -y -i '' @ infile job @ '' -an -vcodec copy '' @ n1 @ ''.mp4'') 0,
       Mktemp n2, Exec (''ffmpeg -y -i '' @ infile job @ '' -acodec copy -vn '' @ n2 @ ''.mp3'') 0,
       Mktemp n3, Exec (''sox -v '' @ str_float h factor @ '' '' @ n2 @ ''.mp3'' @ '' '' @ n3 @ ''.mp3'') 0,
       Exec (''ffmpeg -y -i '' @ n1 @ ''.mp4'' @ '' -i '' @ n3 @ ''.mp3''
               @ '' -vcodec copy -acodec copy '' @ pct_s (outfile job)) 0,
       Unlink (n1 @ ''.mp4''), Unlink (n2 @ ''.mp3''), Unlink (n3 @ ''.mp3'')] \<and>
    n1 @ ''.mp4'' \<notin> files (snd (incrvol h job factor w)) \<and>
    n2 @ ''.mp3'' \<notin> files (snd (incrvol h job factor w)) \<and>
    n3 @ ''.mp3'' \<notin> files (snd (incrvol h job factor w))"
proof -
  obtain r w' where rw: "incrvol h job factor w = (r, w')" by force
  note run = rw [unfolded incrvol_eq]
  have s3': "system_status h (''sox -v '' @ str_float h factor @ '' '' @ pct_s (Some (n2 @ ''.mp3''))
                 @ '' '' @ n3 @ ''.mp3'') = 0"
    using s3 by simp
  have s4': "system_status h (''ffmpeg -y -i '' @ pct_s (Some (n1 @ ''.mp4'')) @ '' -i ''
                 @ pct_s (Some (n3 @ ''.mp3'')) @ '' -vcodec copy -acodec copy ''
                 @ pct_s (outfile job)) = 0"
    using s4 by simp
  note R = incrvol_run [where h = h
      and ?C1.0 = "\<lambda>out. ''ffmpeg -y -i '' @ infile job @ '' -an -vcodec copy '' @ out"
      and ?C2.0 = "\<lambda>out. ''ffmpeg -y -i '' @ infile job @ '' -acodec copy -vn '' @ out"
      and ?C3.0 = "\<lambda>a out. ''sox -v '' @ str_float h factor @ '' '' @ pct_s a @ '' '' @ out"
      and ?C4.0 = "\<lambda>v l. ''ffmpeg -y -i '' @ pct_s v @ '' -i '' @ pct_s l
                 @ '' -vcodec copy -acodec copy '' @ pct_s (outfile job)"
      and out = "outfile job",
      OF t1 t2 t3 s1 s2 s3' s4' u run]
  from R(1) have 1: "fst (incrvol h job factor w) = Inr ()" by (simp add: rw)
  from R(2) have 2: "new_events w (snd (incrvol h job factor w)) =
      [Mktemp n1, Exec (''ffmpeg -y -i '' @ infile job @ '' -an -vcodec copy '' @ n1 @ ''.mp4'') 0,
       Mktemp n2, Exec (''ffmpeg -y -i '' @ infile job @ '' -acodec copy -vn '' @ n2 @ ''.mp3'') 0,
       Mktemp n3, Exec (''sox -v '' @ str_float h factor @ '' '' @ n2 @ ''.mp3'' @ '' '' @ n3 @ ''.mp3'') 0,
       Exec (''ffmpeg -y -i '' @ n1 @ ''.mp4'' @ '' -i '' @ n3 @ ''.mp3''
               @ '' -vcodec copy -acodec copy '' @ pct_s (outfile job)) 0,
       Unlink (n1 @ ''.mp4''), Unlink (n2 @ ''.mp3''), Unlink (n3 @ ''.mp3'')]"
    by (simp add: rw new_events_def)
  from R(3) have 3: "n1 @ ''.mp4'' \<notin> files (snd (incrvol h job factor w))"
    "n2 @ ''.mp3'' \<notin> files (snd (incrvol h job factor w))"
    "n3 @ ''.mp3'' \<notin> files (snd (incrvol h job factor w))"
    by (simp_all add: rw)
  from 1 2 3 show ?thesis by (intro conjI)
qed

lemma incrvol_demo:
  "incrvol host_ok (Sox ''input.mp4'' (Some ''louder.mp4'') False) 2 demo_world =
   (Inr (),
    \<lparr>files = {''louder.mp4'', ''/tmp/tmpc'', ''/tmp/tmpb'', ''/tmp/tmpa'', ''input.mp4''},
     tmp_names = [''/tmp/tmpd'', ''/tmp/tmpe''],
     trace =
       [Mktemp ''/tmp/tmpa'',
        Exec ''ffmpeg -y -i input.mp4 -an -vcodec copy /tmp/tmpa.mp4'' 0,
        Mktemp ''/tmp/tmpb'',
        Exec ''ffmpeg -y -i input.mp4 -acodec copy -vn /tmp/tmpb.mp3'' 0,
        Mktemp ''/tmp/tmpc'',
        Exec ''sox -v 2.0 /tmp/tmpb.mp3 /tmp/tmpc.mp3'' 0,
        Exec ''ffmpeg -y -i /tmp/tmpa.mp4 -i /tmp/tmpc.mp3 -vcodec copy -acodec copy louder.mp4'' 0,
        Unlink ''/tmp/tmpa.mp4'', Unlink ''/tmp/tmpb.mp3'', Unlink ''/tmp/tmpc.mp3''],
     stdout = []\<rparr>)"
  by (simp add: incrvol_eq tmp_stage_def and_then_def NamedTemporaryFile_def exec_ok
      os_unlink_def host_ok_def demo_world_def Sox_def insert_Diff_if)

theorem incrvol_success_witness:
  "first_free (files demo_world) (tmp_names demo_world)
     = Some (''/tmp/tmpa'', [''/tmp/tmpb'', ''/tmp/tmpc'', ''/tmp/tmpd'', ''/tmp/tmpe'']) \<and>
   first_free (files demo_world \<union> {''/tmp/tmpa'', ''/tmp/tmpa.mp4''})
       [''/tmp/tmpb'', ''/tmp/tmpc'', ''/tmp/tmpd'', ''/tmp/tmpe'']
     = Some (''/tmp/tmpb'', [''/tmp/tmpc'', ''/tmp/tmpd'', ''/tmp/tmpe'']) \<and>
   first_free (files demo_world \<union> {''/tmp/tmpa'', ''/tmp/tmpa.mp4'', ''/tmp/tmpb'', ''/tmp/tmpb.mp3''})
       [''/tmp/tmpc'', ''/tmp/tmpd'', ''/tmp/tmpe'']
     = Some (''/tmp/tmpc'', [''/tmp/tmpd'', ''/tmp/tmpe'']) \<and>
   system_status host_ok ''ffmpeg -y -i input.mp4 -an -vcodec copy /tmp/tmpa.mp4'' = 0 \<and>
   system_status host_ok ''ffmpeg -y -i input.mp4 -acodec copy -vn /tmp/tmpb.mp3'' = 0 \<and>
   system_status host_ok ''sox -v 2.0 /tmp/tmpb.mp3 /tmp/tmpc.mp3'' = 0 \<and>
   system_status host_ok
     ''ffmpeg -y -i /tmp/tmpa.mp4 -i /tmp/tmpc.mp3 -vcodec copy -acodec copy louder.mp4'' = 0 \<and>
   unlink_error host_ok ''/tmp/tmpa.mp4'' = None \<and> unlink_error host_ok ''/tmp/tmpb.mp3'' = None \<and>
   unlink_error host_ok ''/tmp/tmpc.mp3'' = None \<and>
   fst (incrvol host_ok (Sox ''input.mp4'' (Some ''louder.mp4'') False) 2 demo_world) = Inr () \<and>
   new_events demo_world
       (snd (incrvol host_ok (Sox ''input.mp4'' (Some ''louder.mp4'') False) 2 demo_world)) =
     [Mktemp ''/tmp/tmpa'',
      Exec ''ffmpeg -y -i input.mp4 -an -vcodec copy /tmp/tmpa.mp4'' 0,
      Mktemp ''/tmp/tmpb'',
      Exec ''ffmpeg -y -i input.mp4 -acodec copy -vn /tmp/tmpb.mp3'' 0,
      Mktemp ''/tmp/tmpc'',
      Exec ''sox -v 2.0 /tmp/tmpb.mp3 /tmp/tmpc.mp3'' 0,
      Exec ''ffmpeg -y -i /tmp/tmpa.mp4 -i /tmp/tmpc.mp3 -vcodec copy -acodec copy louder.mp4'' 0,
      Unlink ''/tmp/tmpa.mp4'', Unlink ''/tmp/tmpb.mp3'', Unlink ''/tmp/tmpc.mp3''] \<and>
   ''/tmp/tmpa.mp4'' \<notin> files (snd (incrvol host_ok (Sox ''input.mp4'' (Some ''louder.mp4'') False) 2 demo_world)) \<and>
   ''/tmp/tmpb.mp3'' \<notin> files (snd (incrvol host_ok (Sox ''input.mp4'' (Some ''louder.mp4'') False) 2 demo_world)) \<and>
   ''/tmp/tmpc.mp3'' \<notin> files (snd (incrvol host_ok (Sox ''input.mp4'' (Some ''louder.mp4'') False) 2 demo_world))"
proof -
  let ?J = "Sox ''input.mp4'' (Some ''louder.mp4'') False"
  have t1: "first_free (files demo_world) (tmp_names demo_world)
     = Some (''/tmp/tmpa'', [''/tmp/tmpb'', ''/tmp/tmpc'', ''/tmp/tmpd'', ''/tmp/tmpe''])"
    by (simp add: demo_world_def)
  have t2: "first_free (files demo_world \<union> {''/tmp/tmpa'', ''/tmp/tmpa'' @ ''.mp4''})
       [''/tmp/tmpb'', ''/tmp/tmpc'', ''/tmp/tmpd'', ''/tmp/tmpe'']
     = Some (''/tmp/tmpb'', [''/tmp/tmpc'', ''/tmp/tmpd'', ''/tmp/tmpe''])"
    by (simp add: demo_world_def)
  have t3: "first_free (files demo_world \<union> {''/tmp/tmpa'', ''/tmp/tmpa'' @ ''.mp4'', ''/tmp/tmpb'',
         ''/tmp/tmpb'' @ ''.mp3''})
       [''/tmp/tmpc'', ''/tmp/tmpd'', ''/tmp/tmpe'']
     = Some (''/tmp/tmpc'', [''/tmp/tmpd'', ''/tmp/tmpe''])"
    by (simp add: demo_world_def)
  have st: "system_status host_ok = (\<lambda>_. 0)" and ue: "unlink_error host_ok = (\<lambda>_. None)"
    by (simp_all add: host_ok_def)
  have J: "infile ?J = ''input.mp4''" "pct_s (outfile ?J) = ''louder.mp4''"
    "str_float host_ok 2 = ''2.0''"
    by (simp_all add: Sox_def host_ok_def)
  have C: "fst (incrvol host_ok ?J 2 demo_world) = Inr () \<and>
    new_events demo_world (snd (incrvol host_ok ?J 2 demo_world)) =
      [Mktemp ''/tmp/tmpa'', Exec (''ffmpeg -y -i '' @ infile ?J @ '' -an -vcodec copy '' @ ''/tmp/tmpa'' @ ''.mp4'') 0,
       Mktemp ''/tmp/tmpb'', Exec (''ffmpeg -y -i '' @ infile ?J @ '' -acodec copy -vn '' @ ''/tmp/tmpb'' @ ''.mp3'') 0,
       Mktemp ''/tmp/tmpc'', Exec (''sox -v '' @ str_float host_ok 2 @ '' '' @ ''/tmp/tmpb'' @ ''.mp3'' @ '' '' @ ''/tmp/tmpc'' @ ''.mp3'') 0,
       Exec (''ffmpeg -y -i '' @ ''/tmp/tmpa'' @ ''.mp4'' @ '' -i '' @ ''/tmp/tmpc'' @ ''.mp3''
               @ '' -vcodec copy -acodec copy '' @ pct_s (outfile ?J)) 0,
       Unlink (''/tmp/tmpa'' @ ''.mp4''), Unlink (''/tmp/tmpb'' @ ''.mp3''), Unlink (''/tmp/tmpc'' @ ''.mp3'')] \<and>
    ''/tmp/tmpa'' @ ''.mp4'' \<notin> files (snd (incrvol host_ok ?J 2 demo_world)) \<and>
    ''/tmp/tmpb'' @ ''.mp3'' \<notin> files (snd (incrvol host_ok ?J 2 demo_world)) \<and>
    ''/tmp/tmpc'' @ ''.mp3'' \<notin> files (snd (incrvol host_ok ?J 2 demo_world))"
    by (rule incrvol_success [OF t1 t2 t3]) (simp_all add: st ue)
  show ?thesis
    using C t1 t2 t3 unfolding J by (simp add: st ue)
qed

section \<open>Single stages: the noise sample, the noise reduction, a failing process\<close>

text \<open>
  Claim C7 asks that the noise-sample stage clips the first second of the audio, with the
  codec copied, into a fresh temporary file, and returns the path of that file. The
  command is the one claimed: from offset \<^verbatim>\<open>00:00:00\<close> for the duration \<^verbatim>\<open>00:00:01\<close> (the
  noise-sample length) with \<^verbatim>\<open>-acodec copy\<close>. The file is not. The temp-file facility
  creates the fresh file \<open>n\<close>; the stage writes to another path, \<open>n\<close> followed by
  \<^verbatim>\<open>.mp3\<close>, and returns that one. Nothing has created or checked that path: it can be a
  file that was on disk before the call, as in \<open>stale_world\<close>, and the fresh file stays
  on disk beside it.
\<close>

theorem noise_sample_not_the_fresh_file:
  assumes "first_free (files w) (tmp_names w) = Some (n, ns)"
      and "system_status h (''ffmpeg -y -i '' @ audio @ '' -acodec copy -ss 00:00:00 -t 00:00:01 ''
                              @ n @ ''.mp3'') = 0"
  shows "noise_len = ''00:00:01'' \<and>
         get_noise_sample h (Some audio) w =
           (Inr (Some (n @ ''.mp3'')),
            w\<lparr>files := insert (n @ ''.mp3'') (insert n (files w)), tmp_names := ns,
              trace := trace w @
                [Mktemp n,
                 Exec (''ffmpeg -y -i '' @ audio @ '' -acodec copy -ss 00:00:00 -t 00:00:01 ''
                         @ n @ ''.mp3'') 0]\<rparr>) \<and>
         n \<notin> files w \<and> n @ ''.mp3'' \<noteq> n"
  using assms first_free_Some [OF assms(1)]
  by (simp add: get_noise_sample_eq tmp_stage_def tmp_then exec_ok noise_len_def)

theorem noise_sample_not_the_fresh_file_witness:
  "first_free (files stale_world) (tmp_names stale_world)
     = Some (''/tmp/tmpa'', [''/tmp/tmpb'', ''/tmp/tmpc'', ''/tmp/tmpd'', ''/tmp/tmpe'']) \<and>
   system_status host_ok ''ffmpeg -y -i audio.mp3 -acodec copy -ss 00:00:00 -t 00:00:01 /tmp/tmpa.mp3'' = 0 \<and>
   get_noise_sample host_ok (Some ''audio.mp3'') stale_world =
     (Inr (Some ''/tmp/tmpa.mp3''),
      \<lparr>files = {''/tmp/tmpa.mp3'', ''/tmp/tmpa'', ''input.mp4''},
       tmp_names = [''/tmp/tmpb'', ''/tmp/tmpc'', ''/tmp/tmpd'', ''/tmp/tmpe''],
       trace = [Mktemp ''/tmp/tmpa'',
                Exec ''ffmpeg -y -i audio.mp3 -acodec copy -ss 00:00:00 -t 00:00:01 /tmp/tmpa.mp3'' 0],
       stdout = []\<rparr>) \<and>
   ''/tmp/tmpa.mp3'' \<in> files stale_world \<and>
   ''/tmp/tmpa'' \<notin> files stale_world"
proof -
  have f: "first_free (files stale_world) (tmp_names stale_world)
     = Some (''/tmp/tmpa'', [''/tmp/tmpb'', ''/tmp/tmpc'', ''/tmp/tmpd'', ''/tmp/tmpe''])"
    by (simp add: stale_world_def demo_world_def)
  have s: "system_status host_ok (''ffmpeg -y -i '' @ ''audio.mp3''
             @ '' -acodec copy -ss 00:00:00 -t 00:00:01 '' @ ''/tmp/tmpa'' @ ''.mp3'') = 0"
    by (simp add: host_ok_def)
  have e: "''/tmp/tmpa.mp3'' \<in> files stale_world" by (simp add: stale_world_def)
  show ?thesis
    using noise_sample_not_the_fresh_file [OF f s] f s e
    by (simp add: stale_world_def demo_world_def insert_commute)
qed

text \<open>
  Claim C8. Whatever the sensitivity is, the noise-reduction stage starts the external
  tool with a command that ends in the rendering of that very value: nothing is checked
  and nothing is rejected in this layer, and whether the stage returns its path depends
  on the exit status of the tool alone. The default that \<^verbatim>\<open>clean\<close> passes is 0.21.
\<close>

theorem remove_noise_sensitivity:
  assumes "first_free (files w) (tmp_names w) = Some (n, ns)"
  shows "(\<exists>evs. trace (snd (remove_noise h audio profile sensitivity w)) =
            trace w @ Mktemp n
              # Exec (''sox '' @ pct_s audio @ '' '' @ n @ ''.mp3'' @ '' noisered '' @ pct_s profile
                        @ '' '' @ str_float h sensitivity)
                  (system_status h (''sox '' @ pct_s audio @ '' '' @ n @ ''.mp3'' @ '' noisered ''
                        @ pct_s profile @ '' '' @ str_float h sensitivity))
              # evs) \<and>
         (system_status h (''sox '' @ pct_s audio @ '' '' @ n @ ''.mp3'' @ '' noisered ''
                        @ pct_s profile @ '' '' @ str_float h sensitivity) = 0 \<longrightarrow>
            fst (remove_noise h audio profile sensitivity w) = Inr (Some (n @ ''.mp3''))) \<and>
         noise_sens = 0.21"
proof -
  let ?cmd = "''sox '' @ pct_s audio @ '' '' @ (n @ ''.mp3'') @ '' noisered '' @ pct_s profile
                @ '' '' @ str_float h sensitivity"
  let ?w1 = "w\<lparr>files := insert n (files w), tmp_names := ns, trace := trace w @ [Mktemp n]\<rparr>"
  have eq: "remove_noise h audio profile sensitivity w =
              exec_shell_cmd_for_file h ?cmd (Some (n @ ''.mp3'')) ?w1"
    unfolding remove_noise_eq tmp_stage_def by (rule tmp_then [OF assms])
  have "(\<exists>evs. trace (snd (exec_shell_cmd_for_file h ?cmd (Some (n @ ''.mp3'')) ?w1)) =
           trace ?w1 @ Exec ?cmd (system_status h ?cmd) # evs) \<and>
        (system_status h ?cmd = 0 \<longrightarrow>
           fst (exec_shell_cmd_for_file h ?cmd (Some (n @ ''.mp3'')) ?w1) = Inr (Some (n @ ''.mp3'')))"
  proof (cases "system_status h ?cmd = 0")
    case True
    then show ?thesis by (simp add: exec_ok)
  next
    case False
    from exec_fail_trace [OF False surjective_pairing] show ?thesis
      using False by blast
  qed
  then show ?thesis unfolding eq by (simp add: noise_sens_def)
qed

theorem remove_noise_sensitivity_witness:
  "first_free (files demo_world) (tmp_names demo_world)
     = Some (''/tmp/tmpa'', [''/tmp/tmpb'', ''/tmp/tmpc'', ''/tmp/tmpd'', ''/tmp/tmpe'']) \<and>
   (\<exists>evs. trace (snd (remove_noise host_ok (Some ''audio.mp3'') (Some ''noise.prof'') 0 demo_world)) =
      trace demo_world @ Mktemp ''/tmp/tmpa''
        # Exec ''sox audio.mp3 /tmp/tmpa.mp3 noisered noise.prof 0'' 0 # evs) \<and>
   fst (remove_noise host_ok (Some ''audio.mp3'') (Some ''noise.prof'') 0 demo_world)
     = Inr (Some ''/tmp/tmpa.mp3'') \<and>
   (\<exists>evs. trace (snd (remove_noise host_ok (Some ''audio.mp3'') (Some ''noise.prof'') 1 demo_world)) =
      trace demo_world @ Mktemp ''/tmp/tmpa''
        # Exec ''sox audio.mp3 /tmp/tmpa.mp3 noisered noise.prof 1'' 0 # evs) \<and>
   fst (remove_noise host_ok (Some ''audio.mp3'') (Some ''noise.prof'') 1 demo_world)
     = Inr (Some ''/tmp/tmpa.mp3'')"
proof -
  have f: "first_free (files demo_world) (tmp_names demo_world)
     = Some (''/tmp/tmpa'', [''/tmp/tmpb'', ''/tmp/tmpc'', ''/tmp/tmpd'', ''/tmp/tmpe''])"
    by (simp add: demo_world_def)
  have h: "system_status host_ok = (\<lambda>_. 0)" "str_float host_ok 0 = ''0''" "str_float host_ok 1 = ''1''"
    by (simp_all add: host_ok_def)
  show ?thesis
    using remove_noise_sensitivity [OF f, of host_ok "Some ''audio.mp3''" "Some ''noise.prof''" 0]
      remove_noise_sensitivity [OF f, of host_ok "Some ''audio.mp3''" "Some ''noise.prof''" 1] f
    unfolding h by simp
qed

text \<open>
  Claim C2 asks that a stage whose process exits with a non-zero status deletes its
  partly written output, if there is one, and raises the bare \<^verbatim>\<open>Exception\<close>. The code
  reaches \<^verbatim>\<open>raise Exception\<close> only when the output path exists. The path of a stage is the
  temporary name with a suffix appended, which the temp-file facility has not created;
  so when the process fails before it writes anything, \<^verbatim>\<open>os.unlink\<close> raises
  \<^verbatim>\<open>FileNotFoundError\<close>, which names the path, and the bare \<^verbatim>\<open>Exception\<close> is never raised.
\<close>

theorem stage_failure_without_output:
  assumes "system_status h cmd \<noteq> 0" and "\<not> leaves_partial h cmd" and "p \<notin> files w"
  shows "exec_shell_cmd_for_file h cmd (Some p) w =
           (Inl (FileNotFoundError p), w\<lparr>trace := trace w @ [Exec cmd (system_status h cmd)]\<rparr>)"
  using assms by (simp add: exec_fail_absent)

theorem stage_failure_without_output_witness:
  "system_status host_down ''ffmpeg -y -i input.mp4 -an -vcodec copy /tmp/tmpa.mp4'' \<noteq> 0 \<and>
   \<not> leaves_partial host_down ''ffmpeg -y -i input.mp4 -an -vcodec copy /tmp/tmpa.mp4'' \<and>
   ''/tmp/tmpa.mp4'' \<notin> files demo_world \<and>
   exec_shell_cmd_for_file host_down ''ffmpeg -y -i input.mp4 -an -vcodec copy /tmp/tmpa.mp4''
       (Some ''/tmp/tmpa.mp4'') demo_world =
     (Inl (FileNotFoundError ''/tmp/tmpa.mp4''),
      demo_world\<lparr>trace := [Exec ''ffmpeg -y -i input.mp4 -an -vcodec copy /tmp/tmpa.mp4'' 32512]\<rparr>) \<and>
   clean host_down (Sox ''input.mp4'' (Some ''clean.mp4'') False) demo_world =
     (Inl (FileNotFoundError ''/tmp/tmpa.mp4''),
      \<lparr>files = {''/tmp/tmpa'', ''input.mp4''},
       tmp_names = [''/tmp/tmpb'', ''/tmp/tmpc'', ''/tmp/tmpd'', ''/tmp/tmpe''],
       trace = [Mktemp ''/tmp/tmpa'',
                Exec ''ffmpeg -y -i input.mp4 -an -vcodec copy /tmp/tmpa.mp4'' 32512],
       stdout = []\<rparr>)"
proof -
  let ?cmd = "''ffmpeg -y -i input.mp4 -an -vcodec copy /tmp/tmpa.mp4''"
  have 1: "system_status host_down ?cmd \<noteq> 0" and 2: "\<not> leaves_partial host_down ?cmd"
    by (simp_all add: host_down_def host_ok_def)
  have 3: "''/tmp/tmpa.mp4'' \<notin> files demo_world" by (simp add: demo_world_def)
  have 4: "clean host_down (Sox ''input.mp4'' (Some ''clean.mp4'') False) demo_world =
     (Inl (FileNotFoundError ''/tmp/tmpa.mp4''),
      \<lparr>files = {''/tmp/tmpa'', ''input.mp4''},
       tmp_names = [''/tmp/tmpb'', ''/tmp/tmpc'', ''/tmp/tmpd'', ''/tmp/tmpe''],
       trace = [Mktemp ''/tmp/tmpa'',
                Exec ''ffmpeg -y -i input.mp4 -an -vcodec copy /tmp/tmpa.mp4'' 32512],
       stdout = []\<rparr>)"
    by (simp add: clean_eq tmp_stage_def and_then_def NamedTemporaryFile_def
        exec_shell_cmd_for_file_def os_system_def os_unlink_def Let_def
        host_down_def host_ok_def demo_world_def Sox_def)
  show ?thesis
    using stage_failure_without_output [OF 1 2 3] 1 2 3 4
    by (simp add: host_down_def host_ok_def demo_world_def)
qed

section \<open>Temporary files after a successful run\<close>

text \<open>
  Claim C3 asks that a run in which all stages succeed leaves no temporary file behind.
  Each stage has the temp-file facility create a file, and then writes to another path:
  that name with a suffix. At the end only the suffixed paths are unlinked. So in every
  run of either pipeline in which every process exits with status 0, a file that the
  temp-file facility created during the run is still on disk afterwards.
\<close>

theorem temp_names_left_on_disk:
  "(clean h job w = (r, w') \<and> (\<forall>st \<in> set (exit_statuses (new_events w w')). st = 0) \<and>
      r \<noteq> Inl FileExistsError \<longrightarrow>
      (\<exists>n. Mktemp n \<in> set (new_events w w') \<and> n \<notin> files w \<and> n \<in> files w')) \<and>
   (incrvol h job factor w = (r, w') \<and> (\<forall>st \<in> set (exit_statuses (new_events w w')). st = 0) \<and>
      r \<noteq> Inl FileExistsError \<longrightarrow>
      (\<exists>n. Mktemp n \<in> set (new_events w w') \<and> n \<notin> files w \<and> n \<in> files w'))"
proof (intro conjI impI)
  assume a: "clean h job w = (r, w') \<and> (\<forall>st \<in> set (exit_statuses (new_events w w')). st = 0) \<and>
      r \<noteq> Inl FileExistsError"
  then have run: "clean h job w = (r, w')"
    and ok: "\<forall>st \<in> set (exit_statuses (new_events w w')). st = 0"
    and tmp: "r \<noteq> Inl FileExistsError" by blast+
  obtain n1 n2 n3 n4 n5 w6 evs where T: "trace w6 = trace w @ evs" and m: "Mktemp n5 \<in> set evs"
    and i: "n5 \<in> files w6" and o: "n5 \<notin> files w"
    and d: "n5 \<notin> {n1 @ ''.mp4'', n2 @ ''.mp3'', n3 @ ''.mp3'', n4 @ ''.prof'', n5 @ ''.mp3''}"
    and u: "unlink_all h [Some (n1 @ ''.mp4''), Some (n2 @ ''.mp3''), Some (n3 @ ''.mp3''),
                   Some (n4 @ ''.prof''), Some (n5 @ ''.mp3'')] w6 = (r, w')"
  proof (rule clean_stages [OF run [unfolded clean_eq] ok tmp])
    fix n1 n2 n3 n4 n5 w6
    assume "trace w6 = trace w @
      [Mktemp n1, Exec (''ffmpeg -y -i '' @ infile job @ '' -an -vcodec copy '' @ n1 @ ''.mp4'') 0,
       Mktemp n2, Exec (''ffmpeg -y -i '' @ infile job @ '' -acodec copy -vn '' @ n2 @ ''.mp3'') 0,
       Mktemp n3, Exec (''ffmpeg -y -i '' @ pct_s (Some (n2 @ ''.mp3''))
                          @ '' -acodec copy -ss 00:00:00 -t 00:00:01 '' @ n3 @ ''.mp3'') 0,
       Mktemp n4, Exec (''sox '' @ pct_s (Some (n3 @ ''.mp3'')) @ '' -n noiseprof '' @ n4 @ ''.prof'') 0,
       Mktemp n5, Exec (''sox '' @ pct_s (Some (n2 @ ''.mp3'')) @ '' '' @ (n5 @ ''.mp3'') @ '' noisered ''
                          @ pct_s (Some (n4 @ ''.prof'')) @ '' '' @ str_float h noise_sens) 0,
       Exec (''ffmpeg -y -i '' @ pct_s (Some (n1 @ ''.mp4'')) @ '' -i '' @ pct_s (Some (n5 @ ''.mp3''))
               @ '' -vcodec copy -acodec copy '' @ pct_s (outfile job)) 0]" (is "_ = _ @ ?evs")
      and "n5 \<in> files w6" and "n5 \<notin> files w"
      and "n5 \<notin> {n1 @ ''.mp4'', n2 @ ''.mp3'', n3 @ ''.mp3'', n4 @ ''.prof'', n5 @ ''.mp3''}"
      and "unlink_all h [Some (n1 @ ''.mp4''), Some (n2 @ ''.mp3''), Some (n3 @ ''.mp3''),
                   Some (n4 @ ''.prof''), Some (n5 @ ''.mp3'')] w6 = (r, w')"
    then show thesis by (intro that [of w6 ?evs n5 n1 n2 n3 n4]) simp_all
  qed
  from unlink_all_frame [OF u] obtain evs' where T': "trace w' = trace w6 @ evs'"
    and keep: "\<forall>f. f \<in> files w6 \<and> Some f \<notin> set [Some (n1 @ ''.mp4''), Some (n2 @ ''.mp3''),
        Some (n3 @ ''.mp3''), Some (n4 @ ''.prof''), Some (n5 @ ''.mp3'')] \<longrightarrow> f \<in> files w'"
    by blast
  from keep i d have "n5 \<in> files w'" by simp
  moreover from T T' m have "Mktemp n5 \<in> set (new_events w w')" by (simp add: new_events_def)
  ultimately show "\<exists>n. Mktemp n \<in> set (new_events w w') \<and> n \<notin> files w \<and> n \<in> files w'"
    using o by blast
next
  assume a: "incrvol h job factor w = (r, w') \<and>
      (\<forall>st \<in> set (exit_statuses (new_events w w')). st = 0) \<and> r \<noteq> Inl FileExistsError"
  then have run: "incrvol h job factor w = (r, w')"
    and ok: "\<forall>st \<in> set (exit_statuses (new_events w w')). st = 0"
    and tmp: "r \<noteq> Inl FileExistsError" by blast+
  obtain n1 n2 n3 w4 evs where T: "trace w4 = trace w @ evs" and m: "Mktemp n3 \<in> set evs"
    and i: "n3 \<in> files w4" and o: "n3 \<notin> files w"
    and d: "n3 \<notin> {n1 @ ''.mp4'', n2 @ ''.mp3'', n3 @ ''.mp3''}"
    and u: "unlink_all h [Some (n1 @ ''.mp4''), Some (n2 @ ''.mp3''), Some (n3 @ ''.mp3'')] w4
              = (r, w')"
  proof (rule incrvol_stages [OF run [unfolded incrvol_eq] ok tmp])
    fix n1 n2 n3 w4
    assume "trace w4 = trace w @
      [Mktemp n1, Exec (''ffmpeg -y -i '' @ infile job @ '' -an -vcodec copy '' @ n1 @ ''.mp4'') 0,
       Mktemp n2, Exec (''ffmpeg -y -i '' @ infile job @ '' -acodec copy -vn '' @ n2 @ ''.mp3'') 0,
       Mktemp n3, Exec (''sox -v '' @ str_float h factor @ '' '' @ pct_s (Some (n2 @ ''.mp3'')) @ '' ''
                          @ n3 @ ''.mp3'') 0,
       Exec (''ffmpeg -y -i '' @ pct_s (Some (n1 @ ''.mp4'')) @ '' -i '' @ pct_s (Some (n3 @ ''.mp3''))
               @ '' -vcodec copy -acodec copy '' @ pct_s (outfile job)) 0]" (is "_ = _ @ ?evs")
      and "n3 \<in> files w4" and "n3 \<notin> files w"
      and "n3 \<notin> {n1 @ ''.mp4'', n2 @ ''.mp3'', n3 @ ''.mp3''}"
      and "unlink_all h [Some (n1 @ ''.mp4''), Some (n2 @ ''.mp3''), Some (n3 @ ''.mp3'')] w4
              = (r, w')"
    then show thesis by (intro that [of w4 ?evs n3 n1 n2]) simp_all
  qed
  from unlink_all_frame [OF u] obtain evs' where T': "trace w' = trace w4 @ evs'"
    and keep: "\<forall>f. f \<in> files w4 \<and> Some f \<notin> set [Some (n1 @ ''.mp4''), Some (n2 @ ''.mp3''),
        Some (n3 @ ''.mp3'')] \<longrightarrow> f \<in> files w'"
    by blast
  from keep i d have "n3 \<in> files w'" by simp
  moreover from T T' m have "Mktemp n3 \<in> set (new_events w w')" by (simp add: new_events_def)
  ultimately show "\<exists>n. Mktemp n \<in> set (new_events w w') \<and> n \<notin> files w \<and> n \<in> files w'"
    using o by blast
qed

theorem temp_names_left_on_disk_witness:
  "exit_statuses (new_events demo_world
       (snd (clean host_ok (Sox ''input.mp4'' (Some ''clean.mp4'') False) demo_world)))
     = [0, 0, 0, 0, 0, 0] \<and>
   fst (clean host_ok (Sox ''input.mp4'' (Some ''clean.mp4'') False) demo_world) = Inr () \<and>
   (\<exists>n. Mktemp n \<in> set (new_events demo_world
             (snd (clean host_ok (Sox ''input.mp4'' (Some ''clean.mp4'') False) demo_world))) \<and>
        n \<notin> files demo_world \<and>
        n \<in> files (snd (clean host_ok (Sox ''input.mp4'' (Some ''clean.mp4'') False) demo_world))) \<and>
   files (snd (clean host_ok (Sox ''input.mp4'' (Some ''clean.mp4'') False) demo_world)) =
     {''clean.mp4'', ''/tmp/tmpe'', ''/tmp/tmpd'', ''/tmp/tmpc'', ''/tmp/tmpb'', ''/tmp/tmpa'',
      ''input.mp4''} \<and>
   files (snd (incrvol host_ok (Sox ''input.mp4'' (Some ''louder.mp4'') False) 2 demo_world)) =
     {''louder.mp4'', ''/tmp/tmpc'', ''/tmp/tmpb'', ''/tmp/tmpa'', ''input.mp4''}"
proof -
  let ?J = "Sox ''input.mp4'' (Some ''clean.mp4'') False"
  let ?r = "fst (clean host_ok ?J demo_world)"
  let ?w = "snd (clean host_ok ?J demo_world)"
  have run: "clean host_ok ?J demo_world = (?r, ?w)" by simp
  have st: "exit_statuses (new_events demo_world ?w) = [0, 0, 0, 0, 0, 0]"
    unfolding clean_demo new_events_def by (simp add: demo_world_def)
  have ok: "\<forall>st \<in> set (exit_statuses (new_events demo_world ?w)). st = 0"
    by (simp add: st)
  have res: "?r = Inr ()" by (simp add: clean_demo)
  then have tmp: "?r \<noteq> Inl FileExistsError" by simp
  have leak: "\<exists>n. Mktemp n \<in> set (new_events demo_world ?w) \<and> n \<notin> files demo_world \<and> n \<in> files ?w"
    using temp_names_left_on_disk [of host_ok ?J demo_world ?r ?w] run ok tmp by blast
  have f1: "files ?w = {''clean.mp4'', ''/tmp/tmpe'', ''/tmp/tmpd'', ''/tmp/tmpc'', ''/tmp/tmpb'',
      ''/tmp/tmpa'', ''input.mp4''}"
    by (simp add: clean_demo)
  have f2: "files (snd (incrvol host_ok (Sox ''input.mp4'' (Some ''louder.mp4'') False) 2 demo_world)) =
     {''louder.mp4'', ''/tmp/tmpc'', ''/tmp/tmpb'', ''/tmp/tmpa'', ''input.mp4''}"
    by (simp add: incrvol_demo)
  from st res leak f1 f2 show ?thesis by blast
qed

section \<open>What a job may unlink\<close>

lemma unlinked_append [simp]: "unlinked (xs @ ys) = unlinked xs @ unlinked ys"
  by (induction xs rule: unlinked.induct) auto

lemma preserves_and_then:
  assumes "preserves I m V" and "\<And>x. V x \<Longrightarrow> preserves I (f x) U"
  shows "preserves I (and_then m f) U"
  unfolding preserves_def
proof (intro allI impI)
  fix w r w'
  assume a: "I w \<and> and_then m f w = (r, w')"
  obtain r1 w1 where m: "m w = (r1, w1)" by force
  with assms(1) a have I1: "I w1" and V: "\<forall>x. r1 = Inr x \<longrightarrow> V x"
    unfolding preserves_def by blast+
  show "I w' \<and> (\<forall>x. r = Inr x \<longrightarrow> U x)"
  proof (cases r1)
    case (Inl e)
    with a m I1 show ?thesis by (auto simp add: and_then_def)
  next
    case (Inr x)
    with a m have "f x w1 = (r, w')" by (simp add: and_then_def)
    with assms(2) [of x] V Inr I1 show ?thesis unfolding preserves_def by blast
  qed
qed

lemma preserves_weaken:
  "preserves I m V \<Longrightarrow> (\<And>x. V x \<Longrightarrow> U x) \<Longrightarrow> preserves I m U"
  unfolding preserves_def by blast

lemma confined_refl: "confined w A w"
  by (simp add: confined_def)

lemma confined_step:
  assumes "confined w0 A w" and "set (tmp_names w') \<subseteq> set (tmp_names w)"
      and "trace w' = trace w @ evs" and "set (unlinked evs) \<subseteq> A"
  shows "confined w0 A w'"
proof -
  from assms(1) obtain evs0 where n: "set (tmp_names w) \<subseteq> set (tmp_names w0)"
    and t: "trace w = trace w0 @ evs0" and u: "set (unlinked evs0) \<subseteq> A"
    unfolding confined_def by blast
  have "trace w' = trace w0 @ (evs0 @ evs)" using assms(3) t by simp
  moreover have "set (unlinked (evs0 @ evs)) \<subseteq> A" using u assms(4) by simp
  moreover have "set (tmp_names w') \<subseteq> set (tmp_names w0)" using n assms(2) by blast
  ultimately show ?thesis unfolding confined_def by blast
qed

lemma preserves_NamedTemporaryFile:
  "preserves (confined w0 A) NamedTemporaryFile (\<lambda>n. n \<in> set (tmp_names w0))"
  unfolding preserves_def
proof (intro allI impI)
  fix w r w'
  assume a: "confined w0 A w \<and> NamedTemporaryFile w = (r, w')"
  then have c: "confined w0 A w" and n0: "set (tmp_names w) \<subseteq> set (tmp_names w0)"
    by (auto simp add: confined_def)
  show "confined w0 A w' \<and> (\<forall>x. r = Inr x \<longrightarrow> x \<in> set (tmp_names w0))"
  proof (cases "first_free (files w) (tmp_names w)")
    case None
    with a have r: "r = Inl FileExistsError" and w': "w' = w\<lparr>tmp_names := []\<rparr>"
      by (auto simp add: NamedTemporaryFile_def)
    have "confined w0 A w'"
      by (rule confined_step [OF c, where evs = "[]"]) (simp_all add: w')
    with r show ?thesis by simp
  next
    case (Some p)
    obtain n ns where p: "p = (n, ns)" by (cases p)
    from first_free_Some [of "files w" "tmp_names w" n ns] Some p
    have m: "n \<in> set (tmp_names w)" "set ns \<subseteq> set (tmp_names w)" by auto
    from a Some p have r: "r = Inr n"
      and w': "w' = w\<lparr>files := insert n (files w), tmp_names := ns, trace := trace w @ [Mktemp n]\<rparr>"
      by (auto simp add: NamedTemporaryFile_def)
    have "confined w0 A w'"
      by (rule confined_step [OF c, where evs = "[Mktemp n]"]) (use m in \<open>simp_all add: w'\<close>)
    with r m n0 show ?thesis by auto
  qed
qed

lemma preserves_os_unlink:
  assumes "\<And>f. path = Some f \<Longrightarrow> f \<in> A"
  shows "preserves (confined w0 A) (os_unlink h path) (\<lambda>_. True)"
  unfolding preserves_def
proof (intro allI impI)
  fix w r w'
  assume a: "confined w0 A w \<and> os_unlink h path w = (r, w')"
  then have c: "confined w0 A w" by simp
  show "confined w0 A w' \<and> (\<forall>x. r = Inr x \<longrightarrow> True)"
  proof (cases "\<exists>f. path = Some f \<and> f \<in> files w \<and> unlink_error h f = None")
    case True
    then obtain f where f: "path = Some f" "f \<in> files w" "unlink_error h f = None" by blast
    with a have w': "w' = w\<lparr>files := files w - {f}, trace := trace w @ [Unlink f]\<rparr>"
      by (simp add: os_unlink_def)
    have "confined w0 A w'"
      by (rule confined_step [OF c, where evs = "[Unlink f]"]) (use assms f in \<open>simp_all add: w'\<close>)
    then show ?thesis by simp
  next
    case False
    with a have "w' = w" by (auto simp add: os_unlink_def split: option.splits if_splits)
    with c show ?thesis by simp
  qed
qed

lemma preserves_exec:
  assumes "\<And>f. out = Some f \<Longrightarrow> f \<in> A"
  shows "preserves (confined w0 A) (exec_shell_cmd_for_file h cmd out) (\<lambda>x. x = out)"
  unfolding preserves_def
proof (intro allI impI)
  fix w r w'
  assume a: "confined w0 A w \<and> exec_shell_cmd_for_file h cmd out w = (r, w')"
  then have c: "confined w0 A w" by simp
  let ?w1 = "snd (os_system h cmd (pct_s out) w)"
  have c1: "confined w0 A ?w1"
    by (rule confined_step [OF c, where evs = "[Exec cmd (system_status h cmd)]"])
       (simp_all add: os_system_def Let_def)
  show "confined w0 A w' \<and> (\<forall>x. r = Inr x \<longrightarrow> x = out)"
  proof (cases "system_status h cmd = 0")
    case True
    with a c1 show ?thesis
      by (auto simp add: exec_shell_cmd_for_file_def os_system_def Let_def)
  next
    case False
    with a have run: "and_then (os_unlink h out) (\<lambda>_ w2. (Inl Exception, w2)) ?w1 = (r, w')"
      by (simp add: exec_shell_cmd_for_file_def os_system_def Let_def)
    have "preserves (confined w0 A) (and_then (os_unlink h out) (\<lambda>_ w2. (Inl Exception, w2)))
            (\<lambda>x. x = out)"
      by (rule preserves_and_then [OF preserves_os_unlink]) (auto simp add: assms preserves_def)
    with c1 run show ?thesis unfolding preserves_def by blast
  qed
qed

lemma preserves_tmp_stage:
  assumes "\<And>n. n \<in> set (tmp_names w0) \<Longrightarrow> n @ sfx \<in> A"
  shows "preserves (confined w0 A) (tmp_stage h C sfx) (\<lambda>x. \<exists>f \<in> A. x = Some f)"
  unfolding tmp_stage_def
proof (rule preserves_and_then [OF preserves_NamedTemporaryFile])
  fix n assume n: "n \<in> set (tmp_names w0)"
  have "preserves (confined w0 A) (exec_shell_cmd_for_file h (C (n @ sfx)) (Some (n @ sfx)))
          (\<lambda>x. x = Some (n @ sfx))"
    by (rule preserves_exec) (use assms n in auto)
  then show "preserves (confined w0 A) (exec_shell_cmd_for_file h (C (n @ sfx)) (Some (n @ sfx)))
          (\<lambda>x. \<exists>f \<in> A. x = Some f)"
    by (rule preserves_weaken) (use assms n in auto)
qed

lemma preserves_unlink_all:
  "(\<And>f. Some f \<in> set ps \<Longrightarrow> f \<in> A) \<Longrightarrow> preserves (confined w0 A) (unlink_all h ps) (\<lambda>_. True)"
proof (induction ps)
  case Nil
  show ?case by (simp add: preserves_def)
next
  case (Cons p ps)
  have eq: "unlink_all h (p # ps) = and_then (os_unlink h p) (\<lambda>_. unlink_all h ps)"
    by (rule ext) simp
  show ?case unfolding eq
    by (rule preserves_and_then [OF preserves_os_unlink]) (use Cons in auto)
qed

lemma may_unlink_sfx:
  "n \<in> set (tmp_names w) \<Longrightarrow> n @ ''.mp4'' \<in> may_unlink job w"
  "n \<in> set (tmp_names w) \<Longrightarrow> n @ ''.mp3'' \<in> may_unlink job w"
  "n \<in> set (tmp_names w) \<Longrightarrow> n @ ''.prof'' \<in> may_unlink job w"
  unfolding may_unlink_def by force+

lemma may_unlink_out: "outfile job = Some f \<Longrightarrow> f \<in> may_unlink job w"
  by (simp add: may_unlink_def)

lemma preserves_merge:
  "preserves (confined w0 (may_unlink job w0)) (merge h job v a) (\<lambda>_. True)"
  unfolding merge_eq
  by (rule preserves_weaken [OF preserves_exec]) (auto simp add: may_unlink_out)

lemma preserves_clean:
  "preserves (confined w0 (may_unlink job w0)) (clean h job) (\<lambda>_. True)"
  unfolding clean_eq
  apply (rule preserves_and_then [OF preserves_tmp_stage], erule may_unlink_sfx)
  apply (rule preserves_and_then [OF preserves_tmp_stage], erule may_unlink_sfx)
  apply (rule preserves_and_then [OF preserves_tmp_stage], erule may_unlink_sfx)
  apply (rule preserves_and_then [OF preserves_tmp_stage], erule may_unlink_sfx)
  apply (rule preserves_and_then [OF preserves_tmp_stage], erule may_unlink_sfx)
  apply (rule preserves_and_then [OF preserves_exec], erule may_unlink_out)
  apply (rule preserves_unlink_all)
  apply auto
  done

lemma preserves_incrvol:
  "preserves (confined w0 (may_unlink job w0)) (incrvol h job factor) (\<lambda>_. True)"
  unfolding incrvol_eq
  apply (rule preserves_and_then [OF preserves_tmp_stage], erule may_unlink_sfx)
  apply (rule preserves_and_then [OF preserves_tmp_stage], erule may_unlink_sfx)
  apply (rule preserves_and_then [OF preserves_tmp_stage], erule may_unlink_sfx)
  apply (rule preserves_and_then [OF preserves_exec], erule may_unlink_out)
  apply (rule preserves_unlink_all)
  apply auto
  done

text \<open>What an operation that keeps its unlinks in \<open>A\<close> has unlinked when it is run.\<close>

lemma preserves_unlinked:
  assumes "preserves (confined w A) m V"
  shows "set (unlinked (new_events w (snd (m w)))) \<subseteq> A"
proof -
  from assms confined_refl [of w A] have "confined w A (snd (m w))"
    unfolding preserves_def by (metis prod.collapse)
  then show ?thesis by (auto simp add: confined_def new_events_def)
qed

lemma stage_unlinked:
  assumes "sfx \<in> {''.mp4'', ''.mp3'', ''.prof''}"
  shows "set (unlinked (new_events w (snd (tmp_stage h C sfx w)))) \<subseteq> may_unlink job w"
proof (rule preserves_unlinked [OF preserves_tmp_stage])
  fix n assume "n \<in> set (tmp_names w)"
  with assms show "n @ sfx \<in> may_unlink job w" unfolding may_unlink_def by force
qed

lemma Sox_extract_eq:
  "Sox_extract h job acodec vcodec suffix =
     tmp_stage h (\<lambda>out. ''ffmpeg -y -i '' @ infile job @ '' ''
                    @ (if truthy acodec then ''-acodec '' @ pct_s acodec else ''-an'') @ '' ''
                    @ (if truthy vcodec then ''-vcodec '' @ pct_s vcodec else ''-vn'') @ '' '' @ out)
       (''.'' @ suffix)"
  by (simp add: tmp_stage_def Sox_extract_def Let_def avprog_def)

lemma merge_fail_present:
  assumes "outfile job = Some p"
      and "system_status h (''ffmpeg -y -i '' @ pct_s video @ '' -i '' @ pct_s audio
                              @ '' -vcodec copy -acodec copy '' @ p) \<noteq> 0"
      and "p \<in> files w \<or> leaves_partial h (''ffmpeg -y -i '' @ pct_s video @ '' -i '' @ pct_s audio
                              @ '' -vcodec copy -acodec copy '' @ p)"
      and "unlink_error h p = None"
  shows "merge h job video audio w =
           (Inl Exception,
            w\<lparr>files := files w - {p},
              trace := trace w @
                [Exec (''ffmpeg -y -i '' @ pct_s video @ '' -i '' @ pct_s audio
                         @ '' -vcodec copy -acodec copy '' @ p)
                      (system_status h (''ffmpeg -y -i '' @ pct_s video @ '' -i '' @ pct_s audio
                         @ '' -vcodec copy -acodec copy '' @ p)),
                 Unlink p]\<rparr>)"
  unfolding merge_eq assms(1) pct_s.simps
  by (rule exec_fail_present [OF assms(2) assms(3) assms(4)])

lemma clean_remux_demo:
  "clean host_remux_fails (Sox ''input.mp4'' (Some ''input.mp4'') False) demo_world =
   (Inl Exception,
    \<lparr>files = {''/tmp/tmpe.mp3'', ''/tmp/tmpe'', ''/tmp/tmpd.prof'', ''/tmp/tmpd'',
              ''/tmp/tmpc.mp3'', ''/tmp/tmpc'', ''/tmp/tmpb.mp3'', ''/tmp/tmpb'',
              ''/tmp/tmpa.mp4'', ''/tmp/tmpa''},
     tmp_names = [],
     trace =
       [Mktemp ''/tmp/tmpa'',
        Exec ''ffmpeg -y -i input.mp4 -an -vcodec copy /tmp/tmpa.mp4'' 0,
        Mktemp ''/tmp/tmpb'',
        Exec ''ffmpeg -y -i input.mp4 -acodec copy -vn /tmp/tmpb.mp3'' 0,
        Mktemp ''/tmp/tmpc'',
        Exec ''ffmpeg -y -i /tmp/tmpb.mp3 -acodec copy -ss 00:00:00 -t 00:00:01 /tmp/tmpc.mp3'' 0,
        Mktemp ''/tmp/tmpd'',
        Exec ''sox /tmp/tmpc.mp3 -n noiseprof /tmp/tmpd.prof'' 0,
        Mktemp ''/tmp/tmpe'',
        Exec ''sox /tmp/tmpb.mp3 /tmp/tmpe.mp3 noisered /tmp/tmpd.prof 0.21'' 0,
        Exec ''ffmpeg -y -i /tmp/tmpa.mp4 -i /tmp/tmpe.mp3 -vcodec copy -acodec copy input.mp4'' 256,
        Unlink ''input.mp4''],
     stdout = []\<rparr>)"
  by (simp add: clean_eq tmp_stage_def and_then_def NamedTemporaryFile_def
      exec_shell_cmd_for_file_def os_system_def os_unlink_def Let_def
      host_remux_fails_def host_ok_def demo_world_def Sox_def noise_sens_def insert_Diff_if)

text \<open>
  Claim C5 says that the input file of a job constructed without overwrite is never
  deleted by any operation. It is, when the output path that was supplied is the input
  path: the remux fails and the file at the output path is unlinked.
\<close>

theorem overwrite_false_input_unlinked:
  "''input.mp4'' \<in> files demo_world \<and>
   fst (clean host_remux_fails (Sox ''input.mp4'' (Some ''input.mp4'') False) demo_world)
     = Inl Exception \<and>
   Unlink ''input.mp4'' \<in> set (new_events demo_world
     (snd (clean host_remux_fails (Sox ''input.mp4'' (Some ''input.mp4'') False) demo_world))) \<and>
   ''input.mp4'' \<notin> files
     (snd (clean host_remux_fails (Sox ''input.mp4'' (Some ''input.mp4'') False) demo_world))"
  unfolding clean_remux_demo new_events_def by (simp add: demo_world_def)

text \<open>
  Claim C5, amended. When the remux process exits with a non-zero status, and the output
  path is on disk after it and can be removed, the file at the output path is unlinked
  and \<^verbatim>\<open>Exception\<close> is raised. For a job constructed with overwrite the output path is the
  input path, so a failing remux unlinks the input file. For a job constructed without
  overwrite, the paths that its operations hand to \<^verbatim>\<open>os.unlink\<close> are the output path that
  was supplied and temporary names followed by the suffix of a stage, and no other;
  \<^verbatim>\<open>exec_shell_cmd_for_file\<close> unlinks nothing but the path it is called with, and the
  stream extraction, called with any suffix, nothing but a temporary name followed by a
  dot and that suffix. So the program unlinks the input file only when one of these
  paths names it. The statement is about the paths as the program spells them and about
  the calls of \<^verbatim>\<open>os.unlink\<close> that the program makes: which file a path resolves to, and
  what the external processes do to the files, is not part of it.
\<close>

theorem remux_failure_and_unlinked_paths:
  "(outfile job = Some p \<and>
    system_status h (''ffmpeg -y -i '' @ pct_s video @ '' -i '' @ pct_s audio
                       @ '' -vcodec copy -acodec copy '' @ p) \<noteq> 0 \<and>
    (p \<in> files w \<or> leaves_partial h (''ffmpeg -y -i '' @ pct_s video @ '' -i '' @ pct_s audio
                       @ '' -vcodec copy -acodec copy '' @ p)) \<and>
    unlink_error h p = None \<longrightarrow>
      fst (merge h job video audio w) = Inl Exception \<and>
      new_events w (snd (merge h job video audio w)) =
        [Exec (''ffmpeg -y -i '' @ pct_s video @ '' -i '' @ pct_s audio
                 @ '' -vcodec copy -acodec copy '' @ p)
              (system_status h (''ffmpeg -y -i '' @ pct_s video @ '' -i '' @ pct_s audio
                 @ '' -vcodec copy -acodec copy '' @ p)),
         Unlink p] \<and>
      p \<notin> files (snd (merge h job video audio w))) \<and>
   (system_status h (''ffmpeg -y -i '' @ pct_s video @ '' -i '' @ pct_s audio
                       @ '' -vcodec copy -acodec copy '' @ inp) \<noteq> 0 \<and>
    inp \<in> files w \<and> unlink_error h inp = None \<longrightarrow>
      fst (merge h (Sox inp outp True) video audio w) = Inl Exception \<and>
      unlinked (new_events w (snd (merge h (Sox inp outp True) video audio w))) = [inp] \<and>
      inp \<notin> files (snd (merge h (Sox inp outp True) video audio w))) \<and>
   may_unlink (Sox inp outp False) w =
     set_option outp \<union>
     (\<lambda>(n, sfx). n @ sfx) ` (set (tmp_names w) \<times> {''.mp4'', ''.mp3'', ''.prof''}) \<and>
   set (unlinked (new_events w (snd (clean h (Sox inp outp False) w))))
     \<subseteq> may_unlink (Sox inp outp False) w \<and>
   set (unlinked (new_events w (snd (incrvol h (Sox inp outp False) factor w))))
     \<subseteq> may_unlink (Sox inp outp False) w \<and>
   set (unlinked (new_events w (snd (extract_video h (Sox inp outp False) w))))
     \<subseteq> may_unlink (Sox inp outp False) w \<and>
   set (unlinked (new_events w (snd (extract_audio h (Sox inp outp False) w))))
     \<subseteq> may_unlink (Sox inp outp False) w \<and>
   set (unlinked (new_events w (snd (get_noise_sample h audio w))))
     \<subseteq> may_unlink (Sox inp outp False) w \<and>
   set (unlinked (new_events w (snd (gen_noise_profile h audio w))))
     \<subseteq> may_unlink (Sox inp outp False) w \<and>
   set (unlinked (new_events w (snd (remove_noise h audio video sensitivity w))))
     \<subseteq> may_unlink (Sox inp outp False) w \<and>
   set (unlinked (new_events w (snd (increase_volume h audio factor w))))
     \<subseteq> may_unlink (Sox inp outp False) w \<and>
   set (unlinked (new_events w (snd (merge h (Sox inp outp False) video audio w))))
     \<subseteq> may_unlink (Sox inp outp False) w \<and>
   set (unlinked (new_events w (snd (exec_shell_cmd_for_file h cmd out w)))) \<subseteq> set_option out \<and>
   set (unlinked (new_events w (snd (Sox_extract h (Sox inp outp False) acodec vcodec suffix w))))
     \<subseteq> (\<lambda>n. n @ ''.'' @ suffix) ` set (tmp_names w)"
proof (intro conjI impI)
  assume a: "outfile job = Some p \<and>
    system_status h (''ffmpeg -y -i '' @ pct_s video @ '' -i '' @ pct_s audio
                       @ '' -vcodec copy -acodec copy '' @ p) \<noteq> 0 \<and>
    (p \<in> files w \<or> leaves_partial h (''ffmpeg -y -i '' @ pct_s video @ '' -i '' @ pct_s audio
                       @ '' -vcodec copy -acodec copy '' @ p)) \<and>
    unlink_error h p = None"
  then have 0: "outfile job = Some p"
    and 1: "system_status h (''ffmpeg -y -i '' @ pct_s video @ '' -i '' @ pct_s audio
                       @ '' -vcodec copy -acodec copy '' @ p) \<noteq> 0"
    and 2: "p \<in> files w \<or> leaves_partial h (''ffmpeg -y -i '' @ pct_s video @ '' -i '' @ pct_s audio
                       @ '' -vcodec copy -acodec copy '' @ p)"
    and 3: "unlink_error h p = None" by blast+
  note m = merge_fail_present [OF 0 1 2 3]
  show "fst (merge h job video audio w) = Inl Exception" by (simp add: m)
  show "new_events w (snd (merge h job video audio w)) =
        [Exec (''ffmpeg -y -i '' @ pct_s video @ '' -i '' @ pct_s audio
                 @ '' -vcodec copy -acodec copy '' @ p)
              (system_status h (''ffmpeg -y -i '' @ pct_s video @ '' -i '' @ pct_s audio
                 @ '' -vcodec copy -acodec copy '' @ p)),
         Unlink p]"
    by (simp add: m new_events_def)
  show "p \<notin> files (snd (merge h job video audio w))" by (simp add: m)
next
  assume a: "system_status h (''ffmpeg -y -i '' @ pct_s video @ '' -i '' @ pct_s audio
                       @ '' -vcodec copy -acodec copy '' @ inp) \<noteq> 0 \<and>
    inp \<in> files w \<and> unlink_error h inp = None"
  have o: "outfile (Sox inp outp True) = Some inp" by (simp add: Sox_def)
  from a have 1: "system_status h (''ffmpeg -y -i '' @ pct_s video @ '' -i '' @ pct_s audio
                       @ '' -vcodec copy -acodec copy '' @ inp) \<noteq> 0"
    and 2: "inp \<in> files w \<or> leaves_partial h (''ffmpeg -y -i '' @ pct_s video @ '' -i '' @ pct_s audio
                       @ '' -vcodec copy -acodec copy '' @ inp)"
    and 3: "unlink_error h inp = None" by blast+
  note m = merge_fail_present [OF o 1 2 3]
  show "fst (merge h (Sox inp outp True) video audio w) = Inl Exception" by (simp add: m)
  show "unlinked (new_events w (snd (merge h (Sox inp outp True) video audio w))) = [inp]"
    by (simp add: m new_events_def)
  show "inp \<notin> files (snd (merge h (Sox inp outp True) video audio w))" by (simp add: m)
next
  show "may_unlink (Sox inp outp False) w =
     set_option outp \<union>
     (\<lambda>(n, sfx). n @ sfx) ` (set (tmp_names w) \<times> {''.mp4'', ''.mp3'', ''.prof''})"
    by (simp add: may_unlink_def Sox_def)
  show "set (unlinked (new_events w (snd (clean h (Sox inp outp False) w))))
     \<subseteq> may_unlink (Sox inp outp False) w"
    by (rule preserves_unlinked [OF preserves_clean])
  show "set (unlinked (new_events w (snd (incrvol h (Sox inp outp False) factor w))))
     \<subseteq> may_unlink (Sox inp outp False) w"
    by (rule preserves_unlinked [OF preserves_incrvol])
  show "set (unlinked (new_events w (snd (extract_video h (Sox inp outp False) w))))
     \<subseteq> may_unlink (Sox inp outp False) w"
    unfolding extract_video_eq by (rule stage_unlinked) simp
  show "set (unlinked (new_events w (snd (extract_audio h (Sox inp outp False) w))))
     \<subseteq> may_unlink (Sox inp outp False) w"
    unfolding extract_audio_eq by (rule stage_unlinked) simp
  show "set (unlinked (new_events w (snd (get_noise_sample h audio w))))
     \<subseteq> may_unlink (Sox inp outp False) w"
    unfolding get_noise_sample_eq by (rule stage_unlinked) simp
  show "set (unlinked (new_events w (snd (gen_noise_profile h audio w))))
     \<subseteq> may_unlink (Sox inp outp False) w"
    unfolding gen_noise_profile_eq by (rule stage_unlinked) simp
  show "set (unlinked (new_events w (snd (remove_noise h audio video sensitivity w))))
     \<subseteq> may_unlink (Sox inp outp False) w"
    unfolding remove_noise_eq by (rule stage_unlinked) simp
  show "set (unlinked (new_events w (snd (increase_volume h audio factor w))))
     \<subseteq> may_unlink (Sox inp outp False) w"
    unfolding increase_volume_eq by (rule stage_unlinked) simp
  show "set (unlinked (new_events w (snd (merge h (Sox inp outp False) video audio w))))
     \<subseteq> may_unlink (Sox inp outp False) w"
    by (rule preserves_unlinked [OF preserves_merge])
  show "set (unlinked (new_events w (snd (exec_shell_cmd_for_file h cmd out w)))) \<subseteq> set_option out"
    by (rule preserves_unlinked [OF preserves_exec]) simp
  show "set (unlinked (new_events w (snd (Sox_extract h (Sox inp outp False) acodec vcodec suffix w))))
     \<subseteq> (\<lambda>n. n @ ''.'' @ suffix) ` set (tmp_names w)"
    unfolding Sox_extract_eq by (rule preserves_unlinked [OF preserves_tmp_stage]) simp
qed

theorem remux_failure_and_unlinked_paths_witness:
  "outfile (Sox ''input.mp4'' (Some ''clean.mp4'') False) = Some ''clean.mp4'' \<and>
   system_status host_down
     ''ffmpeg -y -i /tmp/v.mp4 -i /tmp/a.mp3 -vcodec copy -acodec copy clean.mp4'' = 32512 \<and>
   ''clean.mp4'' \<in> files (demo_world\<lparr>files := {''input.mp4'', ''clean.mp4''}\<rparr>) \<and>
   unlink_error host_down ''clean.mp4'' = None \<and>
   fst (merge host_down (Sox ''input.mp4'' (Some ''clean.mp4'') False)
          (Some ''/tmp/v.mp4'') (Some ''/tmp/a.mp3'')
          (demo_world\<lparr>files := {''input.mp4'', ''clean.mp4''}\<rparr>)) = Inl Exception \<and>
   new_events (demo_world\<lparr>files := {''input.mp4'', ''clean.mp4''}\<rparr>)
     (snd (merge host_down (Sox ''input.mp4'' (Some ''clean.mp4'') False)
          (Some ''/tmp/v.mp4'') (Some ''/tmp/a.mp3'')
          (demo_world\<lparr>files := {''input.mp4'', ''clean.mp4''}\<rparr>))) =
     [Exec ''ffmpeg -y -i /tmp/v.mp4 -i /tmp/a.mp3 -vcodec copy -acodec copy clean.mp4'' 32512,
      Unlink ''clean.mp4''] \<and>
   ''clean.mp4'' \<notin> files
     (snd (merge host_down (Sox ''input.mp4'' (Some ''clean.mp4'') False)
          (Some ''/tmp/v.mp4'') (Some ''/tmp/a.mp3'')
          (demo_world\<lparr>files := {''input.mp4'', ''clean.mp4''}\<rparr>))) \<and>
   system_status host_down
     ''ffmpeg -y -i /tmp/v.mp4 -i /tmp/a.mp3 -vcodec copy -acodec copy input.mp4'' = 32512 \<and>
   ''input.mp4'' \<in> files (demo_world\<lparr>files := {''input.mp4'', ''clean.mp4''}\<rparr>) \<and>
   unlink_error host_down ''input.mp4'' = None \<and>
   fst (merge host_down (Sox ''input.mp4'' (Some ''clean.mp4'') True)
          (Some ''/tmp/v.mp4'') (Some ''/tmp/a.mp3'')
          (demo_world\<lparr>files := {''input.mp4'', ''clean.mp4''}\<rparr>)) = Inl Exception \<and>
   unlinked (new_events (demo_world\<lparr>files := {''input.mp4'', ''clean.mp4''}\<rparr>)
     (snd (merge host_down (Sox ''input.mp4'' (Some ''clean.mp4'') True)
          (Some ''/tmp/v.mp4'') (Some ''/tmp/a.mp3'')
          (demo_world\<lparr>files := {''input.mp4'', ''clean.mp4''}\<rparr>)))) = [''input.mp4''] \<and>
   ''input.mp4'' \<notin> files
     (snd (merge host_down (Sox ''input.mp4'' (Some ''clean.mp4'') True)
          (Some ''/tmp/v.mp4'') (Some ''/tmp/a.mp3'')
          (demo_world\<lparr>files := {''input.mp4'', ''clean.mp4''}\<rparr>))) \<and>
   unlinked (new_events demo_world
     (snd (clean host_ok (Sox ''input.mp4'' (Some ''clean.mp4'') False) demo_world))) =
     [''/tmp/tmpa.mp4'', ''/tmp/tmpb.mp3'', ''/tmp/tmpc.mp3'', ''/tmp/tmpd.prof'', ''/tmp/tmpe.mp3''] \<and>
   set (unlinked (new_events demo_world
     (snd (clean host_ok (Sox ''input.mp4'' (Some ''clean.mp4'') False) demo_world))))
     \<subseteq> may_unlink (Sox ''input.mp4'' (Some ''clean.mp4'') False) demo_world \<and>
   ''input.mp4'' \<notin> may_unlink (Sox ''input.mp4'' (Some ''clean.mp4'') False) demo_world"
proof -
  let ?J = "Sox ''input.mp4'' (Some ''clean.mp4'') False"
  let ?W = "demo_world\<lparr>files := {''input.mp4'', ''clean.mp4''}\<rparr>"
  let ?V = "Some ''/tmp/v.mp4''"
  let ?A = "Some ''/tmp/a.mp3''"
  let ?c1 = "''ffmpeg -y -i '' @ pct_s ?V @ '' -i '' @ pct_s ?A
               @ '' -vcodec copy -acodec copy '' @ ''clean.mp4''"
  let ?c2 = "''ffmpeg -y -i '' @ pct_s ?V @ '' -i '' @ pct_s ?A
               @ '' -vcodec copy -acodec copy '' @ ''input.mp4''"
  have st: "system_status host_down = (\<lambda>_. 32512)" and ue: "unlink_error host_down = (\<lambda>_. None)"
    by (simp_all add: host_down_def host_ok_def)
  have H1: "outfile ?J = Some ''clean.mp4'' \<and> system_status host_down ?c1 \<noteq> 0 \<and>
    (''clean.mp4'' \<in> files ?W \<or> leaves_partial host_down ?c1) \<and>
    unlink_error host_down ''clean.mp4'' = None"
    by (simp add: Sox_def st ue)
  have H2: "system_status host_down ?c2 \<noteq> 0 \<and> ''input.mp4'' \<in> files ?W \<and>
    unlink_error host_down ''input.mp4'' = None"
    by (simp add: st ue)
  note T = remux_failure_and_unlinked_paths [where job = ?J and p = "''clean.mp4''"
      and h = host_down and video = ?V and audio = ?A and w = ?W and inp = "''input.mp4''"
      and outp = "Some ''clean.mp4''"]
  note C1 = T [THEN conjunct1, THEN mp, OF H1]
  note C2 = T [THEN conjunct2, THEN conjunct1, THEN mp, OF H2]
  note U = remux_failure_and_unlinked_paths [where h = host_ok and w = demo_world
      and inp = "''input.mp4''" and outp = "Some ''clean.mp4''"]
  note M = U [THEN conjunct2, THEN conjunct2, THEN conjunct1]
  note C3 = U [THEN conjunct2, THEN conjunct2, THEN conjunct2, THEN conjunct1]
  have E: "unlinked (new_events demo_world (snd (clean host_ok ?J demo_world))) =
     [''/tmp/tmpa.mp4'', ''/tmp/tmpb.mp3'', ''/tmp/tmpc.mp3'', ''/tmp/tmpd.prof'', ''/tmp/tmpe.mp3'']"
    unfolding clean_demo new_events_def by (simp add: demo_world_def)
  have N: "''input.mp4'' \<notin> may_unlink ?J demo_world"
    unfolding M by (simp add: demo_world_def)
  have 1: "outfile ?J = Some ''clean.mp4''" by (simp add: Sox_def)
  have 2: "''clean.mp4'' \<in> files ?W" "''input.mp4'' \<in> files ?W" by simp_all
  from C1 have D1: "fst (merge host_down ?J ?V ?A ?W) = Inl Exception"
    "new_events ?W (snd (merge host_down ?J ?V ?A ?W)) =
     [Exec ''ffmpeg -y -i /tmp/v.mp4 -i /tmp/a.mp3 -vcodec copy -acodec copy clean.mp4'' 32512,
      Unlink ''clean.mp4'']"
    "''clean.mp4'' \<notin> files (snd (merge host_down ?J ?V ?A ?W))"
    by (simp_all add: st)
  from C2 have D2: "fst (merge host_down (Sox ''input.mp4'' (Some ''clean.mp4'') True) ?V ?A ?W)
      = Inl Exception"
    "unlinked (new_events ?W (snd (merge host_down (Sox ''input.mp4'' (Some ''clean.mp4'') True)
      ?V ?A ?W))) = [''input.mp4'']"
    "''input.mp4'' \<notin> files (snd (merge host_down (Sox ''input.mp4'' (Some ''clean.mp4'') True)
      ?V ?A ?W))"
    by simp_all
  show ?thesis
    apply (intro conjI)
    apply (rule 1)
    apply (simp add: st)
    apply (rule 2(1))
    apply (simp add: ue)
    apply (rule D1(1))
    apply (rule D1(2))
    apply (rule D1(3))
    apply (simp add: st)
    apply (rule 2(2))
    apply (simp add: ue)
    apply (rule D2(1))
    apply (rule D2(2))
    apply (rule D2(3))
    apply (rule E)
    apply (rule C3)
    apply (rule N)
    done
qed

end
